theory Spec2Isabelle
  imports Complex_Main "HOL-Library.Char_ord" "HOL-Library.List_Lexorder"
begin

section \<open>Floating-point results and rounding\<close>

text \<open>
  Python floats are modelled by real numbers. A value of type \<open>real option\<close> is a float
  result that may be non-finite: \<open>None\<close> stands for NaN or an infinity, which numpy
  returns (with a warning) instead of raising.
\<close>

definition np_sqrt :: "real \<Rightarrow> real option" where
  \<comment> \<open>\<open>np.sqrt\<close>: NaN on a negative argument.\<close>
  "np_sqrt x = (if x < 0 then None else Some (sqrt x))"

definition rint :: "real \<Rightarrow> real" where
  \<comment> \<open>Rounding to the nearest integer, ties to the even one (Python and numpy).\<close>
  "rint x =
     (let f = \<lfloor>x\<rfloor>; d = x - of_int f
      in of_int (if d < 1 / 2 then f
                 else if 1 / 2 < d then f + 1
                 else if even f then f else f + 1))"

definition py_round :: "real \<Rightarrow> nat \<Rightarrow> real" where
  \<comment> \<open>\<open>round(x, ndigits)\<close> on a float.\<close>
  "py_round x ndigits = rint (x * 10 ^ ndigits) / 10 ^ ndigits"

definition fmul :: "real option \<Rightarrow> real option \<Rightarrow> real option" where
  \<comment> \<open>Float product: non-finite as soon as one factor is.\<close>
  "fmul a b = (case a of None \<Rightarrow> None | Some x \<Rightarrow> map_option (\<lambda>y. x * y) b)"

definition mean :: "real list \<Rightarrow> real" where
  \<comment> \<open>\<open>Series.mean()\<close> of a non-empty numeric column.\<close>
  "mean xs = sum_list xs / real (length xs)"

definition std :: "real list \<Rightarrow> real" where
  \<comment> \<open>\<open>Series.std()\<close>: the sample standard deviation (\<open>ddof = 1\<close>).\<close>
  "std xs = sqrt (sum_list (map (\<lambda>x. (x - mean xs)\<^sup>2) xs) / (real (length xs) - 1))"

section \<open>InventoryOptimizer: the closed formulas\<close>

definition calculate_eoq :: "real \<Rightarrow> real \<Rightarrow> real \<Rightarrow> real \<Rightarrow> real option" where
  "calculate_eoq annual_demand ordering_cost unit_price holding_cost_rate =
     (let holding_cost = unit_price * holding_cost_rate
      in if holding_cost \<le> 0 \<or> annual_demand \<le> 0 then Some 0
         else map_option (\<lambda>eoq. py_round eoq 0)
                (np_sqrt ((2 * annual_demand * ordering_cost) / holding_cost)))"

record safety_stock_result =
  safety_stock :: "real option"
  reorder_point :: "real option"
  z_score :: "real option"

definition norm_ppf :: "(real \<Rightarrow> real) \<Rightarrow> real \<Rightarrow> real option" where
  \<comment> \<open>\<open>scipy.stats.norm.ppf\<close>. The quantile function of the standard normal distribution is
     the parameter \<open>quantile\<close>, read on the open interval; at 0 and 1 scipy returns the
     infinities and elsewhere NaN.\<close>
  "norm_ppf quantile p = (if 0 < p \<and> p < 1 then Some (quantile p) else None)"

definition quantile_like :: "(real \<Rightarrow> real) \<Rightarrow> bool" where
  \<comment> \<open>What is used of the standard normal quantile function: it increases strictly on the
     open unit interval and vanishes at one half.\<close>
  "quantile_like q \<longleftrightarrow> (\<forall>p p'. 0 < p \<and> p < p' \<and> p' < 1 \<longrightarrow> q p < q p') \<and> q (1 / 2) = 0"

definition calculate_safety_stock ::
  "(real \<Rightarrow> real) \<Rightarrow> real \<Rightarrow> real \<Rightarrow> real \<Rightarrow> real \<Rightarrow> real \<Rightarrow> safety_stock_result" where
  "calculate_safety_stock quantile avg_demand demand_std avg_lead_time lead_time_std service_level =
     (let z = norm_ppf quantile service_level;
          ss = fmul z (np_sqrt ((avg_lead_time * demand_std\<^sup>2) +
                               (avg_demand\<^sup>2 * lead_time_std\<^sup>2)));
          rop = map_option (\<lambda>s. avg_demand * avg_lead_time + s) ss
      in \<lparr>safety_stock = map_option (\<lambda>x. py_round x 0) ss,
          reorder_point = map_option (\<lambda>x. py_round x 0) rop,
          z_score = map_option (\<lambda>x. py_round x 2) z\<rparr>)"

section \<open>The dataset\<close>

text \<open>
  One row of the cleaned order table, with the columns the engines below read. Text columns
  are strings (the loader applies \<open>astype(str)\<close>), numeric columns hold finite numbers,
  and \<open>order_date\<close> is a timestamp in seconds.
\<close>

record order =
  order_id :: int
  order_date :: int
  product_category :: string
  quantity :: real
  unit_price :: real
  revenue :: real
  discount_percent :: real
  scheduled_shipping_days :: real
  late_delivery :: real

type_synonym dataframe = "order list"

definition dt_date :: "int \<Rightarrow> int" where
  \<comment> \<open>\<open>.dt.date\<close>: the calendar day of a timestamp, as a day number.\<close>
  "dt_date ts = ts div 86400"

definition unique_sorted :: "('a \<Rightarrow> 'k::linorder) \<Rightarrow> 'a list \<Rightarrow> 'k list" where
  \<comment> \<open>The distinct keys of a column in ascending order: \<open>sorted(col.unique())\<close>, and the
     group keys of \<open>groupby\<close>.\<close>
  "unique_sorted key rows = sort (remdups (map key rows))"

definition groupby :: "('a \<Rightarrow> 'k::linorder) \<Rightarrow> 'a list \<Rightarrow> ('k \<times> 'a list) list" where
  "groupby key rows = map (\<lambda>k. (k, filter (\<lambda>r. key r = k) rows)) (unique_sorted key rows)"

section \<open>InventoryOptimizer: the per-category analysis\<close>

record inventory_row =
  category :: string
  total_orders :: nat
  total_revenue :: real
  avg_daily_demand :: real
  demand_std :: real
  demand_cv :: real
  annual_demand :: real
  avg_unit_price :: real
  avg_lead_time :: real
  eoq :: "real option"
  safety_stock_95 :: "real option"
  reorder_point_95 :: "real option"
  safety_stock_99 :: "real option"
  reorder_point_99 :: "real option"
  late_delivery_rate :: real
  overstock_risk :: string

definition analyze_category :: "(real \<Rightarrow> real) \<Rightarrow> string \<Rightarrow> dataframe \<Rightarrow> inventory_row" where
  \<comment> \<open>The loop body of \<open>analyze_inventory\<close> for one category with at least 10 orders.\<close>
  "analyze_category quantile cat cat_data =
     (let daily_demand = map (\<lambda>(d, g). (d, sum_list (map quantity g)))
                           (groupby (\<lambda>r. dt_date (order_date r)) cat_data);
          avg_dd = mean (map snd daily_demand);
          std_dd = (if length daily_demand > 1 then std (map snd daily_demand) else 0);
          date_range_days = Max (set (map fst daily_demand)) - Min (set (map fst daily_demand));
          annual = (if date_range_days > 0 then avg_dd * 365 else avg_dd * 365);
          avg_lt = mean (map scheduled_shipping_days cat_data);
          lt_std = (if length cat_data > 1 then std (map scheduled_shipping_days cat_data) else 1);
          avg_price = mean (map unit_price cat_data);
          e = calculate_eoq annual 50 avg_price (1 / 5);
          ss_95 = calculate_safety_stock quantile avg_dd std_dd avg_lt lt_std (95 / 100);
          ss_99 = calculate_safety_stock quantile avg_dd std_dd avg_lt lt_std (99 / 100);
          late_rate = mean (map late_delivery cat_data) * 100;
          cv = (if avg_dd > 0 then std_dd / avg_dd * 100 else 0);
          avg_order_qty = mean (map quantity cat_data);
          risk = (case e of
                    None \<Rightarrow> ''Low''
                  | Some q \<Rightarrow>
                      if avg_order_qty > q * (3 / 2) \<and> q > 0 then ''High''
                      else if avg_order_qty > q \<and> q > 0 then ''Medium'' else ''Low'')
      in \<lparr>category = cat,
          total_orders = length cat_data,
          total_revenue = py_round (sum_list (map revenue cat_data)) 2,
          avg_daily_demand = py_round avg_dd 1,
          demand_std = py_round std_dd 1,
          demand_cv = py_round cv 1,
          annual_demand = py_round annual 0,
          avg_unit_price = py_round avg_price 2,
          avg_lead_time = py_round avg_lt 1,
          eoq = e,
          safety_stock_95 = safety_stock ss_95,
          reorder_point_95 = reorder_point ss_95,
          safety_stock_99 = safety_stock ss_99,
          reorder_point_99 = reorder_point ss_99,
          late_delivery_rate = py_round late_rate 1,
          overstock_risk = risk\<rparr>)"

definition analyze_inventory :: "(real \<Rightarrow> real) \<Rightarrow> dataframe \<Rightarrow> inventory_row list" where
  "analyze_inventory quantile df =
     concat (map (\<lambda>cat.
        let cat_data = filter (\<lambda>r. product_category r = cat) df
        in if length cat_data < 10 then [] else [analyze_category quantile cat cat_data])
      (unique_sorted product_category df))"

text \<open>
  \<open>analyze_inventory\<close> is wrapped by \<open>st.cache_data\<close>: the result is stored under the
  dataset (the instance \<open>_self\<close> is left out of the key), and a later call with the same
  dataset returns the stored table without running the body.
\<close>

type_synonym inventory_cache = "dataframe \<rightharpoonup> inventory_row list"

definition analyze_inventory_cached ::
  "(real \<Rightarrow> real) \<Rightarrow> inventory_cache \<Rightarrow> dataframe \<Rightarrow> inventory_row list \<times> inventory_cache" where
  "analyze_inventory_cached quantile cache df =
     (case cache df of
        Some stored \<Rightarrow> (stored, cache)
      | None \<Rightarrow> (let res = analyze_inventory quantile df in (res, cache(df \<mapsto> res))))"

section \<open>SupplierScorer\<close>

text \<open>
  \<open>pd.cut(x, bins, labels)\<close> with its defaults \<open>right=True\<close> and \<open>include_lowest=False\<close>:
  the intervals are open on the left and closed on the right, and a value in none of them
  gets the missing label.
\<close>

fun pd_cut :: "real list \<Rightarrow> 'l list \<Rightarrow> real \<Rightarrow> 'l option" where
  "pd_cut (lo # hi # bins) (l # labels) x =
     (if lo < x \<and> x \<le> hi then Some l else pd_cut (hi # bins) labels x)"
| "pd_cut _ _ _ = None"

text \<open>
  A row of \<open>supplier_data\<close> once the six dimension columns are computed (the aggregation
  and the min-max scaling that produce them come before, and are the input here).
\<close>

record supplier_row =
  supplier :: string
  delivery_performance :: real
  profitability :: real
  volume_capability :: real
  order_reliability :: real
  cost_efficiency :: real
  product_diversity :: real

record scored_row =
  dimensions :: supplier_row
  overall_score :: real
  risk_level :: "string option"
  grade :: "string option"

definition WEIGHTS :: "(string \<times> real) list" where
  "WEIGHTS =
     [(''delivery_performance'', 30 / 100),
      (''profitability'', 20 / 100),
      (''volume_capability'', 15 / 100),
      (''order_reliability'', 15 / 100),
      (''cost_efficiency'', 10 / 100),
      (''product_diversity'', 10 / 100)]"

definition metric_column :: "supplier_row \<Rightarrow> string \<Rightarrow> real" where
  \<comment> \<open>\<open>supplier_data[metric]\<close> for the dimension columns.\<close>
  "metric_column r metric =
     (if metric = ''delivery_performance'' then delivery_performance r
      else if metric = ''profitability'' then profitability r
      else if metric = ''volume_capability'' then volume_capability r
      else if metric = ''order_reliability'' then order_reliability r
      else if metric = ''cost_efficiency'' then cost_efficiency r
      else product_diversity r)"

definition score_bins :: "real list" where
  "score_bins = [0, 3 / 10, 5 / 10, 65 / 100, 8 / 10, 1]"

definition risk_labels :: "string list" where
  "risk_labels = [''Critical'', ''High'', ''Medium'', ''Low'', ''Very Low'']"

definition grade_labels :: "string list" where
  "grade_labels = [''F'', ''D'', ''C'', ''B'', ''A'']"

definition score_row :: "supplier_row \<Rightarrow> scored_row" where
  "score_row r =
     (let s = sum_list (map (\<lambda>(metric, weight). metric_column r metric * weight) WEIGHTS)
      in \<lparr>dimensions = r,
          overall_score = s,
          risk_level = pd_cut score_bins risk_labels s,
          grade = pd_cut score_bins grade_labels s\<rparr>)"

definition score_suppliers :: "supplier_row list \<Rightarrow> scored_row list" where
  \<comment> \<open>The overall score, the two labels, and the descending sort on the score.\<close>
  "score_suppliers supplier_data =
     sort_key (\<lambda>r. - overall_score r) (map score_row supplier_data)"

fun rank_of :: "'l list \<Rightarrow> 'l \<Rightarrow> nat option" where
  \<comment> \<open>The position of a label in its ordered label list.\<close>
  "rank_of [] l = None"
| "rank_of (x # xs) l = (if x = l then Some 0 else map_option Suc (rank_of xs l))"

section \<open>Errors\<close>

text \<open>
  The exceptions that can leave the modelled code. A function that may raise returns
  \<open>error + 'a\<close>, with \<open>Inl\<close> for the raised exception.
\<close>

datatype error = ValueError | IndexError | TypeError

section \<open>The resource cache\<close>

text \<open>
  \<open>st.cache_resource\<close> around a method whose first parameter is named \<open>_self\<close>. The
  stored results are keyed by the other arguments: the instance is no part of the key, and
  the store is shared by all instances. A call whose key is stored returns the stored
  result and does not run the body, so the instance it was made on is left as it was.
  Otherwise the body runs on the instance, and its result is stored when it returns; an
  exception is passed on and nothing is stored.
\<close>

definition cache_resource ::
  "('k \<rightharpoonup> 'r) \<Rightarrow> 'k \<Rightarrow> ('s \<Rightarrow> (error + 'r) \<times> 's) \<Rightarrow> 's \<Rightarrow>
     (error + 'r) \<times> 's \<times> ('k \<rightharpoonup> 'r)" where
  "cache_resource cache key body self =
     (case cache key of
        Some stored \<Rightarrow> (Inr stored, self, cache)
      | None \<Rightarrow>
          (case body self of
             (Inl e, self') \<Rightarrow> (Inl e, self', cache)
           | (Inr res, self') \<Rightarrow> (Inr res, self', cache(key \<mapsto> res))))"

section \<open>DemandForecaster\<close>

text \<open>
  Days are day numbers (\<open>pd.Timedelta(days=1)\<close> adds one). The calendar accessors of
  pandas (\<open>.dt.year\<close>, \<open>.dt.isocalendar().week\<close>, ...) are a parameter: a function from a
  day to its calendar fields.
\<close>

record calendar =
  year :: int
  month :: int
  quarter :: int
  dayofweek :: int
  dayofyear :: int
  isoweek :: int
  is_month_start :: bool
  is_month_end :: bool
  is_quarter_start :: bool

type_synonym named_cells = "(string \<times> real option) list"
  \<comment> \<open>numeric cells of one row, by column name and in column order; \<open>None\<close> is NaN\<close>

definition as_int :: "bool \<Rightarrow> real" where
  \<comment> \<open>\<open>.astype(int)\<close> on a boolean column.\<close>
  "as_int b = (if b then 1 else 0)"

definition create_time_features :: "(int \<Rightarrow> calendar) \<Rightarrow> int \<Rightarrow> named_cells" where
  "create_time_features cal d =
     (let c = cal d
      in [(''year'', Some (real_of_int (year c))),
          (''month'', Some (real_of_int (month c))),
          (''quarter'', Some (real_of_int (quarter c))),
          (''day_of_week'', Some (real_of_int (dayofweek c))),
          (''day_of_year'', Some (real_of_int (dayofyear c))),
          (''week_of_year'', Some (real_of_int (isoweek c))),
          (''is_weekend'', Some (as_int (dayofweek c \<ge> 5))),
          (''is_month_start'', Some (as_int (is_month_start c))),
          (''is_month_end'', Some (as_int (is_month_end c))),
          (''is_quarter_start'', Some (as_int (is_quarter_start c))),
          (''month_sin'', Some (sin (2 * pi * real_of_int (month c) / 12))),
          (''month_cos'', Some (cos (2 * pi * real_of_int (month c) / 12))),
          (''dow_sin'', Some (sin (2 * pi * real_of_int (dayofweek c) / 7))),
          (''dow_cos'', Some (cos (2 * pi * real_of_int (dayofweek c) / 7))),
          (''is_holiday_season'', Some (as_int (month c = 11 \<or> month c = 12)))])"

text \<open>
  A row of the daily frame: the day, the summed demand, the DataFrame index label, and
  every other column. The other columns are exactly the feature columns.
\<close>

record daily_row =
  row_index :: nat
  order_day :: int
  demand :: real
  features :: named_cells

definition shift_at :: "nat \<Rightarrow> nat \<Rightarrow> real list \<Rightarrow> real option" where
  \<comment> \<open>\<open>col.shift(lag)\<close> at position \<open>i\<close>: NaN in the first \<open>lag\<close> rows.\<close>
  "shift_at lag i xs = (if lag \<le> i then Some (xs ! (i - lag)) else None)"

definition window_at :: "nat \<Rightarrow> nat \<Rightarrow> real list \<Rightarrow> real list" where
  \<comment> \<open>The window of \<open>col.rolling(window=w, min_periods=1)\<close> that ends at position \<open>i\<close>.\<close>
  "window_at w i xs = drop (Suc i - w) (take (Suc i) xs)"

definition rolling_std :: "real list \<Rightarrow> real" where
  \<comment> \<open>\<open>.std().fillna(0)\<close> on a window: NaN, hence 0, when it holds one value.\<close>
  "rolling_std win = (if length win > 1 then std win else 0)"

definition lag_columns :: "(nat \<times> string) list" where
  "lag_columns = [(1, ''demand_lag_1''), (7, ''demand_lag_7''),
                  (14, ''demand_lag_14''), (28, ''demand_lag_28'')]"

definition rolling_columns :: "(nat \<times> string \<times> string) list" where
  "rolling_columns =
     [(7, ''demand_rolling_mean_7'', ''demand_rolling_std_7''),
      (14, ''demand_rolling_mean_14'', ''demand_rolling_std_14''),
      (30, ''demand_rolling_mean_30'', ''demand_rolling_std_30'')]"

definition daily_row_at ::
  "(int \<Rightarrow> calendar) \<Rightarrow> (int \<times> dataframe) list \<Rightarrow> real list \<Rightarrow> nat \<Rightarrow> daily_row" where
  \<comment> \<open>Row \<open>i\<close> of the daily frame: the aggregates of the day's orders, the lags and the
     rolling statistics of the demand column, and the calendar features of the day.\<close>
  "daily_row_at cal groups demands i =
     (let (d, g) = groups ! i
      in \<lparr>row_index = i, order_day = d, demand = demands ! i,
          features =
            [(''revenue'', Some (sum_list (map revenue g))),
             (''num_orders'', Some (real (length g))),
             (''avg_price'', Some (mean (map unit_price g))),
             (''avg_discount'', Some (mean (map discount_percent g)))] @
            map (\<lambda>(lag, name). (name, shift_at lag i demands)) lag_columns @
            concat (map (\<lambda>(w, mean_name, std_name).
                [(mean_name, Some (mean (window_at w i demands))),
                 (std_name, Some (rolling_std (window_at w i demands)))])
              rolling_columns) @
            create_time_features cal d\<rparr>)"

definition daily_frame :: "(int \<Rightarrow> calendar) \<Rightarrow> dataframe \<Rightarrow> daily_row list" where
  \<comment> \<open>The daily frame of \<open>_prepare_data\<close> before \<open>dropna\<close>: one row per order day, in
     ascending order of the day.\<close>
  "daily_frame cal data =
     (let groups = groupby (\<lambda>r. dt_date (order_date r)) data;
          demands = map (\<lambda>(d, g). sum_list (map quantity g)) groups
      in map (daily_row_at cal groups demands) [0..<length groups])"

definition dropna :: "daily_row list \<Rightarrow> daily_row list" where
  "dropna daily = filter (\<lambda>r. list_all (\<lambda>c. snd c \<noteq> None) (features r)) daily"

definition prepare_data ::
  "(int \<Rightarrow> calendar) \<Rightarrow> dataframe \<Rightarrow> string option \<Rightarrow> named_cells list \<times> real list \<times> daily_row list" where
  \<comment> \<open>\<open>_prepare_data\<close>; \<open>if category:\<close> is false for \<open>None\<close> and for the empty string.\<close>
  "prepare_data cal df cat =
     (let data = (case cat of
                    None \<Rightarrow> df
                  | Some c \<Rightarrow> if c = [] then df else filter (\<lambda>r. product_category r = c) df);
          daily = dropna (daily_frame cal data)
      in (map features daily, map demand daily, daily))"

definition feature_names :: "string list" where
  \<comment> \<open>\<open>features.columns.tolist()\<close>: the columns of the daily frame but \<open>order_date\<close> and
     \<open>demand\<close>, whatever the number of rows.\<close>
  "feature_names =
     [''revenue'', ''num_orders'', ''avg_price'', ''avg_discount''] @
     map snd lag_columns @
     concat (map (\<lambda>(w, mean_name, std_name). [mean_name, std_name]) rolling_columns) @
     [''year'', ''month'', ''quarter'', ''day_of_week'', ''day_of_year'', ''week_of_year'',
      ''is_weekend'', ''is_month_start'', ''is_month_end'', ''is_quarter_start'',
      ''month_sin'', ''month_cos'', ''dow_sin'', ''dow_cos'', ''is_holiday_season'']"

text \<open>
  \<open>train_test_split(X, y, test_size, shuffle=False)\<close> of scikit-learn, for a fractional test
  size: the test set has \<open>ceil(test_size * n)\<close> rows, cut from the end, the train set the
  others, and an empty train set is a \<open>ValueError\<close>. The product is taken over the reals
  here; in floats it can exceed a whole number by a rounding error, which moves one row
  from the train set to the test set and leaves the train set non-empty from two rows on.
\<close>

definition train_test_split ::
  "'a list \<Rightarrow> 'b list \<Rightarrow> real \<Rightarrow> error + ('a list \<times> 'a list \<times> 'b list \<times> 'b list)" where
  "train_test_split X y test_size =
     (let n = length X;
          n_test = nat \<lceil>test_size * real n\<rceil>;
          n_train = n - n_test
      in if n_train = 0 then Inl ValueError
         else Inr (take n_train X, take n_test (drop n_train X),
                   take n_train y, take n_test (drop n_train y)))"

definition TEST_SIZE :: real where
  "TEST_SIZE = 2 / 10"

type_synonym regressor = "named_cells \<Rightarrow> real"
  \<comment> \<open>a fitted \<open>XGBRegressor\<close>: its prediction for one feature row\<close>

type_synonym xgb_fit = "named_cells list \<Rightarrow> real list \<Rightarrow> named_cells list \<Rightarrow> real list \<Rightarrow> regressor"
  \<comment> \<open>\<open>XGBRegressor(...).fit(X_train, y_train, eval_set=[(X_test, y_test)])\<close>, a parameter\<close>

record train_metrics =
  mae :: real
  rmse :: real
  r2 :: "real option"
  mape :: "real option"

definition r2_score :: "real list \<Rightarrow> real list \<Rightarrow> real option" where
  \<comment> \<open>scikit-learn's \<open>r2_score\<close>: NaN under two samples; 1 or 0 when the truth is constant.\<close>
  "r2_score y_true y_pr =
     (let num = sum_list (map (\<lambda>(a, b). (a - b)\<^sup>2) (zip y_true y_pr));
          den = sum_list (map (\<lambda>a. (a - mean y_true)\<^sup>2) y_true)
      in if length y_true < 2 then None
         else if den \<noteq> 0 then Some (1 - num / den)
         else if num = 0 then Some 1 else Some 0)"

definition mape_score :: "real list \<Rightarrow> real list \<Rightarrow> real option" where
  \<comment> \<open>\<open>np.mean(np.abs((y_test - y_pred) / (y_test + 1e-8))) * 100\<close>; a zero denominator
     gives a non-finite float.\<close>
  "mape_score y_true y_pr =
     (if list_ex (\<lambda>a. a + 1 / 10 ^ 8 = 0) y_true then None
      else Some (mean (map (\<lambda>(a, b). \<bar>(a - b) / (a + 1 / 10 ^ 8)\<bar>) (zip y_true y_pr)) * 100))"

text \<open>
  The state of an engine instance. Both engines hold a fitted model (\<open>None\<close> until
  \<open>train\<close> has run) and the feature columns of the fit; each adds fields of its own.
\<close>

record 'm engine =
  model :: "'m option"
  feature_columns :: "string list"

record forecaster = "regressor engine" +
  metrics :: "train_metrics option"

definition new_forecaster :: forecaster where
  \<comment> \<open>\<open>DemandForecaster()\<close>\<close>
  "new_forecaster = \<lparr>model = None, feature_columns = [], metrics = None\<rparr>"

text \<open>
  \<open>DemandForecaster.train\<close> is decorated with \<open>st.cache_resource\<close>. The definition \<open>train\<close>
  is the body of the method, which runs when a call is not answered from the cache, and
  \<open>train_cached\<close> below is the method as its callers reach it. The body returns the new
  state of the instance beside its result: \<open>feature_columns\<close> is assigned before the split
  can raise.
\<close>

definition train ::
  "(int \<Rightarrow> calendar) \<Rightarrow> xgb_fit \<Rightarrow> forecaster \<Rightarrow> dataframe \<Rightarrow> string option \<Rightarrow>
     (error + (train_metrics \<times> real list \<times> real list \<times> nat list)) \<times> forecaster" where
  "train cal fit self df cat =
     (let (X, target, daily) = prepare_data cal df cat;
          self1 = self\<lparr>feature_columns := feature_names\<rparr>
      in case train_test_split X target TEST_SIZE of
           Inl e \<Rightarrow> (Inl e, self1)
         | Inr (X_train, X_test, y_train, y_test) \<Rightarrow>
             (let m = fit X_train y_train X_test y_test;
                  y_pred = map m X_test;
                  ms = \<lparr>mae = mean (map (\<lambda>(a, b). \<bar>a - b\<bar>) (zip y_test y_pred)),
                        rmse = sqrt (mean (map (\<lambda>(a, b). (a - b)\<^sup>2) (zip y_test y_pred))),
                        r2 = r2_score y_test y_pred,
                        mape = mape_score y_test y_pred\<rparr>
              in (Inr (ms, y_test, y_pred,
                       map row_index (drop (length X_train) daily)),
                  self1\<lparr>model := Some m, metrics := Some ms\<rparr>)))"

type_synonym train_result = "train_metrics \<times> real list \<times> real list \<times> nat list"

definition train_cached ::
  "(int \<Rightarrow> calendar) \<Rightarrow> xgb_fit \<Rightarrow> (dataframe \<times> string option \<rightharpoonup> train_result) \<Rightarrow>
     forecaster \<Rightarrow> dataframe \<Rightarrow> string option \<Rightarrow>
     (error + train_result) \<times> forecaster \<times> (dataframe \<times> string option \<rightharpoonup> train_result)" where
  \<comment> \<open>\<open>forecaster.train(df, category)\<close>: the decorated method, keyed by the dataset and
     the category.\<close>
  "train_cached cal fit cache self df cat =
     cache_resource cache (df, cat) (\<lambda>s. train cal fit s df cat) self"

record forecast_row =
  forecast_date :: int
  predicted_demand :: real

definition np_std :: "real list \<Rightarrow> real" where
  \<comment> \<open>\<open>np.std\<close>: the population standard deviation.\<close>
  "np_std xs = sqrt (sum_list (map (\<lambda>x. (x - mean xs)\<^sup>2) xs) / real (length xs))"

definition select_columns :: "string list \<Rightarrow> named_cells \<Rightarrow> named_cells" where
  \<comment> \<open>\<open>feature_row[self.feature_columns]\<close>, after the columns the row lacks are set to 0.\<close>
  "select_columns cols row =
     map (\<lambda>c. (c, case map_of row c of None \<Rightarrow> Some 0 | Some v \<Rightarrow> v)) cols"

definition cell :: "named_cells \<Rightarrow> string \<Rightarrow> real option" where
  \<comment> \<open>\<open>last_row[name]\<close> for a column the daily frame has.\<close>
  "cell row name = (case map_of row name of None \<Rightarrow> None | Some v \<Rightarrow> v)"

fun forecast_loop ::
  "(int \<Rightarrow> calendar) \<Rightarrow> regressor \<Rightarrow> string list \<Rightarrow> daily_row \<Rightarrow> real list \<Rightarrow> int list \<Rightarrow>
     error + forecast_row list" where
  "forecast_loop cal m cols last_row recent_demands [] = Inr []"
| "forecast_loop cal m cols last_row recent_demands (date # dates) =
     (if recent_demands = [] then Inl IndexError
      else
        let row =
              [(''revenue'', cell (features last_row) ''revenue''),
               (''num_orders'', cell (features last_row) ''num_orders''),
               (''avg_price'', cell (features last_row) ''avg_price''),
               (''avg_discount'', cell (features last_row) ''avg_discount'')] @
              map (\<lambda>(lag, name).
                  (name, Some (if lag \<le> length recent_demands
                               then recent_demands ! (length recent_demands - lag)
                               else recent_demands ! 0)))
                lag_columns @
              concat (map (\<lambda>(w, mean_name, std_name).
                  let recent_window = drop (length recent_demands - w) recent_demands
                  in [(mean_name, Some (mean recent_window)),
                      (std_name, Some (if length recent_window > 1 then np_std recent_window else 0))])
                rolling_columns) @
              create_time_features cal date;
            pred = max 0 (m (select_columns cols row))
        in case forecast_loop cal m cols last_row (recent_demands @ [pred]) dates of
             Inl e \<Rightarrow> Inl e
           | Inr rest \<Rightarrow> Inr (\<lparr>forecast_date = date, predicted_demand = pred\<rparr> # rest))"

definition forecast_future ::
  "(int \<Rightarrow> calendar) \<Rightarrow> forecaster \<Rightarrow> dataframe \<Rightarrow> int \<Rightarrow> string option \<Rightarrow>
     error + forecast_row list" where
  \<comment> \<open>The empty list is the empty \<open>DataFrame\<close>. On an empty daily frame the last date is
     \<open>NaT\<close>, and on a negative horizon the number of periods is negative: \<open>pd.date_range\<close>
     raises \<open>ValueError\<close> in both cases.\<close>
  "forecast_future cal self df horizon_days cat =
     (case model self of
        None \<Rightarrow> Inr []
      | Some m \<Rightarrow>
          (let (X, target, daily) = prepare_data cal df cat
           in if daily = [] \<or> horizon_days < 0 then Inl ValueError
              else
                let last_date = Max (set (map order_day daily));
                    future_dates = map (\<lambda>i. last_date + 1 + int i) [0..<nat horizon_days];
                    last_row = last daily;
                    recent_demands = drop (length daily - 30) (map demand daily)
                in forecast_loop cal m (feature_columns self) last_row recent_demands future_dates))"

section \<open>DeliveryPredictor\<close>

text \<open>
  A single order is a dictionary from column names to loosely typed values: a Python
  \<open>int\<close>, a (finite) \<open>float\<close>, a \<open>str\<close> or \<open>None\<close>.
\<close>

datatype pyval = Integer int | Num real | Str string | NoneVal

type_synonym pyrow = "string \<rightharpoonup> pyval"

type_synonym classifier = "(string \<times> real) list \<Rightarrow> real"
  \<comment> \<open>a fitted \<open>XGBClassifier\<close>: the probability of the late class for one feature row\<close>

record predictor = "classifier engine" +
  label_encoders :: "(string \<times> string list) list"
    \<comment> \<open>per categorical column, the \<open>classes_\<close> of its \<open>LabelEncoder\<close>\<close>

definition new_predictor :: predictor where
  \<comment> \<open>\<open>DeliveryPredictor()\<close>\<close>
  "new_predictor = \<lparr>model = None, feature_columns = [], label_encoders = []\<rparr>"

definition categorical_cols :: "string list" where
  \<comment> \<open>The columns \<open>_prepare_features\<close> fits encoders for.\<close>
  "categorical_cols =
     [''product_category'', ''region'', ''shipping_mode'', ''customer_segment'', ''department'']"

definition astype_str :: "(pyval \<Rightarrow> string) \<Rightarrow> pyval \<Rightarrow> string" where
  \<comment> \<open>\<open>.astype(str)\<close> on one value; how Python prints a number is the parameter.\<close>
  "astype_str str_num v = (case v of Str s \<Rightarrow> s | NoneVal \<Rightarrow> ''None'' | _ \<Rightarrow> str_num v)"

definition encode_value :: "string list \<Rightarrow> string \<Rightarrow> int" where
  \<comment> \<open>\<open>le.transform([x])[0] if x in le.classes_ else -1\<close>\<close>
  "encode_value classes x = (case rank_of classes x of Some i \<Rightarrow> int i | None \<Rightarrow> - 1)"

definition encode_categoricals ::
  "(pyval \<Rightarrow> string) \<Rightarrow> (string \<times> string list) list \<Rightarrow> pyrow \<Rightarrow> pyrow" where
  \<comment> \<open>The loop over \<open>self.label_encoders\<close>: a column the order has gets its encoded twin.\<close>
  "encode_categoricals str_num encoders df =
     fold (\<lambda>(col, classes) d.
         case d col of
           None \<Rightarrow> d
         | Some v \<Rightarrow> d(col @ ''_encoded'' \<mapsto> Integer (encode_value classes (astype_str str_num v))))
       encoders df"

definition pymul :: "pyval \<Rightarrow> pyval \<Rightarrow> error + pyval" where
  \<comment> \<open>The product of two cells of a one-row frame. Numbers multiply. With \<open>None\<close> on either
     side pandas fills in a missing value in a column of dtype object and does not raise; a
     string times an \<open>int\<close> is the repeated string; a string times a \<open>float\<close> or a string
     raises \<open>TypeError\<close>.\<close>
  "pymul a b =
     (case (a, b) of
        (NoneVal, _) \<Rightarrow> Inr NoneVal
      | (_, NoneVal) \<Rightarrow> Inr NoneVal
      | (Integer m, Integer n) \<Rightarrow> Inr (Integer (m * n))
      | (Integer m, Num y) \<Rightarrow> Inr (Num (real_of_int m * y))
      | (Num x, Integer n) \<Rightarrow> Inr (Num (x * real_of_int n))
      | (Num x, Num y) \<Rightarrow> Inr (Num (x * y))
      | (Str s, Integer n) \<Rightarrow> Inr (Str (concat (replicate (nat n) s)))
      | (Integer m, Str t) \<Rightarrow> Inr (Str (concat (replicate (nat m) t)))
      | _ \<Rightarrow> Inl TypeError)"

definition interaction :: "string \<Rightarrow> string \<Rightarrow> string \<Rightarrow> pyrow \<Rightarrow> error + pyrow" where
  \<comment> \<open>\<open>if a in df.columns and b in df.columns: df[name] = df[a] * df[b]\<close>\<close>
  "interaction a b name df =
     (case (df a, df b) of
        (Some x, Some y) \<Rightarrow> (case pymul x y of Inl e \<Rightarrow> Inl e | Inr v \<Rightarrow> Inr (df(name \<mapsto> v)))
      | _ \<Rightarrow> Inr df)"

definition fill_missing :: "string list \<Rightarrow> pyrow \<Rightarrow> pyrow" where
  \<comment> \<open>\<open>for col in self.feature_columns: if col not in df.columns: df[col] = 0\<close>\<close>
  "fill_missing cols df = fold (\<lambda>col d. if d col = None then d(col \<mapsto> Integer 0) else d) cols df"

definition num_of :: "pyval option \<Rightarrow> real option" where
  \<comment> \<open>The number in a cell of a numeric column; none in a cell of a column of dtype object.\<close>
  "num_of v = (case v of Some (Integer n) \<Rightarrow> Some (real_of_int n) | Some (Num x) \<Rightarrow> Some x | _ \<Rightarrow> None)"

definition model_input :: "string list \<Rightarrow> pyrow \<Rightarrow> error + (string \<times> real) list" where
  \<comment> \<open>\<open>df[self.feature_columns]\<close> as XGBoost reads it: a column that does not hold numbers
     is refused with \<open>ValueError\<close>.\<close>
  "model_input cols df =
     (if list_all (\<lambda>c. num_of (df c) \<noteq> None) cols
      then Inr (map (\<lambda>c. (c, the (num_of (df c)))) cols)
      else Inl ValueError)"

definition order_features ::
  "(pyval \<Rightarrow> string) \<Rightarrow> predictor \<Rightarrow> pyrow \<Rightarrow> error + (string \<times> real) list" where
  \<comment> \<open>The one-row frame of \<open>predict_single\<close> up to \<open>df[self.feature_columns]\<close>: the encoded
     categoricals, the three interaction features, and 0 for every feature column still
     missing.\<close>
  "order_features str_num self order_data =
     (let df = encode_categoricals str_num (label_encoders self) order_data
      in case interaction ''unit_price'' ''quantity'' ''price_x_quantity'' df of
           Inl e \<Rightarrow> Inl e
         | Inr df1 \<Rightarrow>
        (case interaction ''discount_percent'' ''unit_price'' ''discount_x_price'' df1 of
           Inl e \<Rightarrow> Inl e
         | Inr df2 \<Rightarrow>
        (case interaction ''scheduled_shipping_days'' ''quantity'' ''scheduled_x_qty'' df2 of
           Inl e \<Rightarrow> Inl e
         | Inr df3 \<Rightarrow>
             model_input (feature_columns self) (fill_missing (feature_columns self) df3))))"

definition predict_single ::
  "(pyval \<Rightarrow> string) \<Rightarrow> predictor \<Rightarrow> pyrow \<Rightarrow> error + (string \<times> pyval) list" where
  \<comment> \<open>The returned dictionary is the list of its items. \<open>predict_proba\<close> of the binary
     classifier is the pair \<open>[1 - p, p]\<close>, and \<open>predict\<close> is 1 when \<open>p > 0.5\<close>.\<close>
  "predict_single str_num self order_data =
     (case model self of
        None \<Rightarrow> Inr [(''error'', Str ''Model not trained'')]
      | Some clf \<Rightarrow>
          (case order_features str_num self order_data of
             Inl e \<Rightarrow> Inl e
           | Inr X \<Rightarrow>
               (let p = clf X;
                    prob = [1 - p, p];
                    prediction = (if p > 1 / 2 then 1 else 0)
                in Inr [(''late_delivery_prediction'', Integer prediction),
                        (''late_probability'', Num (prob ! 1)),
                        (''on_time_probability'', Num (prob ! 0)),
                        (''risk_level'',
                         Str (if prob ! 1 > 7 / 10 then ''High''
                              else if prob ! 1 > 4 / 10 then ''Medium'' else ''Low''))])))"

definition numerical_cols :: "string list" where
  "numerical_cols =
     [''unit_price'', ''quantity'', ''revenue'', ''discount_percent'', ''profit_margin'',
      ''scheduled_shipping_days'', ''order_month'', ''order_quarter'', ''order_day_of_week'']"

definition prepare_features_state ::
  "string list \<Rightarrow> (string \<Rightarrow> string list) \<Rightarrow> predictor \<Rightarrow> predictor" where
  \<comment> \<open>What \<open>_prepare_features\<close> assigns to the instance, from the columns of the training
     frame: an encoder for each categorical column present that has none yet (its
     \<open>classes_\<close>, the sorted distinct values of the column, are the parameter), and the
     feature columns.\<close>
  "prepare_features_state columns classes_of self =
     (let cats = filter (\<lambda>c. c \<in> set columns) categorical_cols;
          encoders = fold (\<lambda>col les.
                        if col \<in> set (map fst les) then les else les @ [(col, classes_of col)])
                      cats (label_encoders self);
          nums = filter (\<lambda>c. c \<in> set columns) numerical_cols;
          feature_cols =
            nums @ map (\<lambda>col. col @ ''_encoded'') cats @
            (if ''unit_price'' \<in> set columns \<and> ''quantity'' \<in> set columns
             then [''price_x_quantity''] else []) @
            (if ''discount_percent'' \<in> set columns \<and> ''unit_price'' \<in> set columns
             then [''discount_x_price''] else []) @
            (if ''scheduled_shipping_days'' \<in> set columns \<and> ''quantity'' \<in> set columns
             then [''scheduled_x_qty''] else [])
      in self\<lparr>feature_columns := feature_cols, label_encoders := encoders\<rparr>)"

text \<open>
  \<open>DeliveryPredictor.train\<close> is decorated with \<open>st.cache_resource\<close> as well, keyed by the
  training frame. Its body (the feature preparation above, the stratified split, the fit
  and the metrics) is a parameter here: a function from the instance and the frame to a
  result or an exception, and the new state of the instance.
\<close>

definition train_delivery ::
  "(predictor \<Rightarrow> 'f \<Rightarrow> (error + 'r) \<times> predictor) \<Rightarrow> ('f \<rightharpoonup> 'r) \<Rightarrow> predictor \<Rightarrow> 'f \<Rightarrow>
     (error + 'r) \<times> predictor \<times> ('f \<rightharpoonup> 'r)" where
  \<comment> \<open>\<open>predictor.train(df)\<close>: the decorated method.\<close>
  "train_delivery body cache self df = cache_resource cache df (\<lambda>s. body s df) self"

definition fitted_shape :: "predictor \<Rightarrow> bool" where
  \<comment> \<open>The shape \<open>_prepare_features\<close> gives to the state: one encoder per categorical column,
     and no categorical column among the features (their encoded twins are).\<close>
  "fitted_shape self \<longleftrightarrow>
     distinct (map fst (label_encoders self)) \<and>
     list_all (\<lambda>col. col \<in> set categorical_cols) (map fst (label_encoders self)) \<and>
     list_all (\<lambda>col. col \<notin> set categorical_cols) (feature_columns self)"

definition numeric_fields :: "pyrow \<Rightarrow> bool" where
  \<comment> \<open>Every field of the order but the categorical ones holds a number.\<close>
  "numeric_fields order_data \<longleftrightarrow>
     (\<forall>c v. order_data c = Some v \<and> c \<notin> set categorical_cols \<longrightarrow>
        (\<exists>n. v = Integer n) \<or> (\<exists>x. v = Num x))"

section \<open>Tool bridge\<close>

text \<open>
  A tool implementation takes the dataset and the argument dictionary and either returns
  a Python object or raises an exception of class \<open>Exception\<close>, kept as its message
  \<open>str(e)\<close> (binding the keyword arguments is part of the call). The seven implementations
  are parameters, and so are \<open>json.dumps(result, default=str)\<close>, which may raise as well,
  and the JSON encoding of a string.
\<close>

type_synonym 'r tool = "dataframe \<Rightarrow> (string \<times> pyval) list \<Rightarrow> string + 'r"

record 'r tools =
  query_data :: "'r tool"
  run_forecast :: "'r tool"
  analyze_supplier :: "'r tool"
  check_inventory :: "'r tool"
  predict_delivery :: "'r tool"
  get_top_products :: "'r tool"
  compare_regions :: "'r tool"

definition tool_map :: "'r tools \<Rightarrow> (string \<times> 'r tool) list" where
  "tool_map impls =
     [(''query_supply_chain_data'', query_data impls),
      (''run_demand_forecast'', run_forecast impls),
      (''analyze_supplier'', analyze_supplier impls),
      (''check_inventory_status'', check_inventory impls),
      (''predict_delivery_risk'', predict_delivery impls),
      (''get_top_products'', get_top_products impls),
      (''compare_regions'', compare_regions impls)]"

definition dumps_error :: "(string \<Rightarrow> string) \<Rightarrow> string \<Rightarrow> string" where
  \<comment> \<open>\<open>json.dumps({"error": msg})\<close>: the object with the one key \<open>error\<close>.\<close>
  "dumps_error json_string msg =
     [CHR ''{'', CHR 0x22] @ ''error'' @ [CHR 0x22, CHR '':'', CHR '' ''] @ json_string msg @ [CHR ''}'']"

definition execute_tool ::
  "(string \<Rightarrow> string) \<Rightarrow> ('r \<Rightarrow> string + string) \<Rightarrow> 'r tools \<Rightarrow>
     string \<Rightarrow> (string \<times> pyval) list \<Rightarrow> dataframe \<Rightarrow> string + string" where
  \<comment> \<open>\<open>Inl\<close> would be an exception that reaches the caller, \<open>Inr\<close> is the returned text.\<close>
  "execute_tool json_string dumps impls tool_name arguments df =
     (case map_of (tool_map impls) tool_name of
        None \<Rightarrow> Inr (dumps_error json_string (''Unknown tool: '' @ tool_name))
      | Some tool \<Rightarrow>
          (case (case tool df arguments of
                   Inl e \<Rightarrow> Inl e
                 | Inr result \<Rightarrow> dumps result) of
             Inr text \<Rightarrow> Inr text
           | Inl e \<Rightarrow> Inr (dumps_error json_string e)))"

section \<open>Example data\<close>

text \<open>
  One order a day for the first \<open>k\<close> days, all of one category, and stand-ins for the two
  library parameters: the calendar fields of the days 0 to 58 (1 January to 28 February
  1970; day 0 was a Thursday), and a fit whose model predicts the mean of the training
  target less five.
\<close>

definition daily_orders :: "nat \<Rightarrow> dataframe" where
  "daily_orders k =
     map (\<lambda>i. \<lparr>order_id = int i, order_date = 86400 * int i + 3600,
               product_category = ''Golf'', quantity = 2, unit_price = 10, revenue = 20,
               discount_percent = 0, scheduled_shipping_days = 4, late_delivery = 0\<rparr>)
       [0..<k]"

definition calendar_1970 :: "int \<Rightarrow> calendar" where
  "calendar_1970 d =
     \<lparr>year = 1970, month = (if d < 31 then 1 else 2), quarter = 1,
      dayofweek = (d + 3) mod 7, dayofyear = d + 1, isoweek = (d + 3) div 7 + 1,
      is_month_start = (d = 0 \<or> d = 31), is_month_end = (d = 30 \<or> d = 58),
      is_quarter_start = (d = 0)\<rparr>"

definition mean_less_five :: xgb_fit where
  "mean_less_five X_train y_train X_test y_test = (\<lambda>row. mean y_train - 5)"

definition two_suppliers :: "supplier_row list" where
  \<comment> \<open>Two departments on the boundaries: the first has all six dimension scores at 0, the
     second only a perfect delivery performance.\<close>
  "two_suppliers =
     [\<lparr>supplier = ''Golf'', delivery_performance = 0, profitability = 0, volume_capability = 0,
       order_reliability = 0, cost_efficiency = 0, product_diversity = 0\<rparr>,
      \<lparr>supplier = ''Apparel'', delivery_performance = 1, profitability = 0, volume_capability = 0,
       order_reliability = 0, cost_efficiency = 0, product_diversity = 0\<rparr>]"

definition trained_predictor :: predictor where
  \<comment> \<open>A new predictor after \<open>_prepare_features\<close> on a frame with the columns below, whose
     regions are Europe and LATAM, holding a model that rates every order at 0.8.\<close>
  "trained_predictor =
     (prepare_features_state [''region'', ''unit_price'', ''quantity'', ''late_delivery'']
        (\<lambda>col. [''Europe'', ''LATAM'']) new_predictor)\<lparr>model := Some (\<lambda>X. 8 / 10)\<rparr>"

definition unseen_region_order :: pyrow where
  "unseen_region_order =
     [''region'' \<mapsto> Str ''Atlantis'', ''unit_price'' \<mapsto> Num 10, ''quantity'' \<mapsto> Integer 3]"

definition quoted :: "string \<Rightarrow> string" where
  \<comment> \<open>The JSON encoding of a string that needs no escape.\<close>
  "quoted s = [CHR 0x22] @ s @ [CHR 0x22]"

definition broken_tools :: "string tools" where
  \<comment> \<open>Implementations that all raise.\<close>
  "broken_tools =
     \<lparr>query_data = (\<lambda>df args. Inl ''order_date''),
      run_forecast = (\<lambda>df args. Inl ''order_date''),
      analyze_supplier = (\<lambda>df args. Inl ''order_date''),
      check_inventory = (\<lambda>df args. Inl ''order_date''),
      predict_delivery = (\<lambda>df args. Inl ''order_date''),
      get_top_products = (\<lambda>df args. Inl ''order_date''),
      compare_regions = (\<lambda>df args. Inl ''order_date'')\<rparr>"

section \<open>Properties\<close>

subsection \<open>Rounding\<close>

lemma rint_near: "\<bar>rint x - x\<bar> \<le> 1 / 2"
proof -
  have a: "of_int \<lfloor>x\<rfloor> \<le> x" "x < of_int \<lfloor>x\<rfloor> + 1" by linarith+
  show ?thesis unfolding rint_def Let_def using a by (auto simp: abs_le_iff)
qed

lemma rint_of_int: "rint (of_int n) = of_int n"
  by (simp add: rint_def)

lemma rint_mono:
  assumes "x \<le> y"
  shows "rint x \<le> rint y"
proof -
  let ?f = "\<lfloor>x\<rfloor>" and ?g = "\<lfloor>y\<rfloor>"
  have fg: "?f \<le> ?g" using assms by (rule floor_mono)
  show ?thesis
  proof (cases "?f = ?g")
    case True
    then show ?thesis using assms by (auto simp: rint_def Let_def)
  next
    case False
    then have "?f + 1 \<le> ?g" using fg by linarith
    moreover have "rint x \<le> of_int (?f + 1)" by (auto simp: rint_def Let_def)
    moreover have "of_int ?g \<le> rint y" by (auto simp: rint_def Let_def)
    ultimately show ?thesis
      by (metis (no_types, opaque_lifting) of_int_le_iff order_trans)
  qed
qed

lemma rint_nonneg: "0 \<le> x \<Longrightarrow> 0 \<le> rint x"
  using rint_mono[of 0 x] rint_of_int[of 0] by simp

lemma py_round_mono: "x \<le> y \<Longrightarrow> py_round x n \<le> py_round y n"
  by (simp add: py_round_def rint_mono divide_right_mono mult_right_mono)

lemma py_round_0: "py_round x 0 = rint x"
  by (simp add: py_round_def)

lemma py_round_nonneg: "0 \<le> x \<Longrightarrow> 0 \<le> py_round x n"
  by (simp add: py_round_def rint_nonneg)

lemma rint_sqrt_50000: "rint (sqrt 50000) = 224"
proof -
  have lo: "223.5 < sqrt 50000" by (rule real_less_rsqrt) (simp add: power2_eq_square)
  have hi: "sqrt 50000 < 224" by (rule real_less_lsqrt) (simp_all add: power2_eq_square)
  have fl: "\<lfloor>sqrt 50000\<rfloor> = 223" using lo hi by (simp add: floor_eq_iff)
  show ?thesis using lo hi by (simp add: rint_def Let_def fl)
qed

lemma sqrt_50000_not_int: "sqrt 50000 \<noteq> 224"
proof -
  have "sqrt 50000 < 224" by (rule real_less_lsqrt) (simp_all add: power2_eq_square)
  then show ?thesis by simp
qed

subsection \<open>Economic order quantity\<close>

text \<open>
  Claim C7, as the code has it: \<open>calculate_eoq\<close> returns 0 when the annual demand or the
  holding cost is not positive; otherwise, for a non-negative ordering cost, it returns the
  square-root formula rounded to the nearest whole number (ties to even), which is within
  one half of the formula's value, and NaN for a negative ordering cost. The example of the
  specification returns exactly 224.
\<close>

theorem calculate_eoq_rounded:
  "(D \<le> 0 \<or> P * r \<le> 0 \<longrightarrow> calculate_eoq D S P r = Some 0) \<and>
   (0 < D \<and> 0 < P * r \<and> 0 \<le> S \<longrightarrow>
      calculate_eoq D S P r = Some (rint (sqrt (2 * D * S / (P * r)))) \<and>
      \<bar>rint (sqrt (2 * D * S / (P * r))) - sqrt (2 * D * S / (P * r))\<bar> \<le> 1 / 2) \<and>
   (0 < D \<and> 0 < P * r \<and> S < 0 \<longrightarrow> calculate_eoq D S P r = None) \<and>
   calculate_eoq 10000 50 100 (1 / 5) = Some 224"
proof (intro conjI impI)
  assume "D \<le> 0 \<or> P * r \<le> 0"
  then show "calculate_eoq D S P r = Some 0"
    by (auto simp: calculate_eoq_def Let_def)
next
  assume a: "0 < D \<and> 0 < P * r \<and> 0 \<le> S"
  then have "0 \<le> 2 * D * S / (P * r)" by simp
  with a show "calculate_eoq D S P r = Some (rint (sqrt (2 * D * S / (P * r))))"
    by (simp add: calculate_eoq_def Let_def np_sqrt_def py_round_0 not_le not_less)
  show "\<bar>rint (sqrt (2 * D * S / (P * r))) - sqrt (2 * D * S / (P * r))\<bar> \<le> 1 / 2"
    by (rule rint_near)
next
  assume a: "0 < D \<and> 0 < P * r \<and> S < 0"
  then have "D * S < 0" by (simp add: mult_pos_neg)
  then have "2 * D * S / (P * r) < 0" using a by (simp add: divide_neg_pos)
  with a show "calculate_eoq D S P r = None"
    by (simp add: calculate_eoq_def Let_def np_sqrt_def not_le)
next
  show "calculate_eoq 10000 50 100 (1 / 5) = Some 224"
    by (simp add: calculate_eoq_def np_sqrt_def py_round_0 rint_sqrt_50000)
qed

theorem calculate_eoq_rounded_witness:
  "calculate_eoq 0 50 100 (1 / 5) = Some 0 \<and>
   calculate_eoq 10000 50 100 0 = Some 0 \<and>
   calculate_eoq 10000 50 100 (1 / 5) = Some (rint (sqrt 50000))"
  using calculate_eoq_rounded[of 0 100 "1 / 5" 50] calculate_eoq_rounded[of 10000 100 0 50]
    calculate_eoq_rounded[of 10000 100 "1 / 5" 50]
  by simp

text \<open>
  The returned quantity is the rounded one, not the square root itself: for the example of
  the specification the result is 224, and the square root of 50000 is not.
\<close>

theorem calculate_eoq_not_exact_sqrt:
  "calculate_eoq 10000 50 100 (1 / 5) = Some 224 \<and>
   calculate_eoq 10000 50 100 (1 / 5) \<noteq> Some (sqrt (2 * 10000 * 50 / (100 * (1 / 5))))"
  using sqrt_50000_not_int
  by (simp add: calculate_eoq_def np_sqrt_def py_round_0 rint_sqrt_50000)

subsection \<open>Safety stock and reorder point\<close>

lemma rint_numeral: "rint (numeral k) = numeral k" "rint (- numeral k) = - numeral k"
  using rint_of_int[of "numeral k"] rint_of_int[of "- numeral k"] by simp_all

lemma sqrt_16: "sqrt 16 = 4"
  using real_sqrt_abs[of 4] by (simp add: power2_eq_square)

text \<open>
  Claim C1, as the code has it. The safety stock is \<open>z\<close> times a square root, and \<open>z\<close> is
  negative below a service level of one half, so the bound holds from one half upwards: for
  a service level in \<open>[1/2, 1)\<close> and non-negative demand and lead-time statistics,
  \<open>reorder_point \<ge> safety_stock \<ge> 0\<close>. On the whole open interval the reported
  \<open>z_score\<close> never decreases when the service level grows.
\<close>

theorem calculate_safety_stock_bounds:
  assumes q: "quantile_like q"
    and nn: "0 \<le> d" "0 \<le> sd" "0 \<le> L" "0 \<le> sL"
  shows "(1 / 2 \<le> sl \<and> sl < 1 \<longrightarrow>
           (\<exists>ss rp. safety_stock (calculate_safety_stock q d sd L sL sl) = Some ss \<and>
                    reorder_point (calculate_safety_stock q d sd L sL sl) = Some rp \<and>
                    0 \<le> ss \<and> ss \<le> rp)) \<and>
         (0 < s1 \<and> s1 \<le> s2 \<and> s2 < 1 \<longrightarrow>
           (\<exists>z1 z2. z_score (calculate_safety_stock q d sd L sL s1) = Some z1 \<and>
                    z_score (calculate_safety_stock q d sd L sL s2) = Some z2 \<and>
                    z1 \<le> z2))"
proof (intro conjI impI)
  assume sl: "1 / 2 \<le> sl \<and> sl < 1"
  let ?v = "L * sd\<^sup>2 + d\<^sup>2 * sL\<^sup>2"
  have v: "0 \<le> ?v" using nn by simp
  have z: "0 \<le> q sl"
  proof (cases "sl = 1 / 2")
    case True
    have "q (1 / 2) = 0" using q by (simp add: quantile_like_def)
    then show ?thesis unfolding True by simp
  next
    case False
    then have "0 < (1 / 2 :: real) \<and> 1 / 2 < sl \<and> sl < 1" using sl by simp
    then have "q (1 / 2) < q sl" using q unfolding quantile_like_def by blast
    moreover have "q (1 / 2) = 0" using q by (simp add: quantile_like_def)
    ultimately show ?thesis by simp
  qed
  have ss: "0 \<le> q sl * sqrt ?v" using z v by simp
  have dl: "0 \<le> d * L" using nn by simp
  have "py_round (q sl * sqrt ?v) 0 \<le> py_round (d * L + q sl * sqrt ?v) 0"
    by (rule py_round_mono) (use dl in simp)
  moreover have "0 \<le> py_round (q sl * sqrt ?v) 0"
    using ss by (rule py_round_nonneg)
  ultimately show "\<exists>ss rp. safety_stock (calculate_safety_stock q d sd L sL sl) = Some ss \<and>
                    reorder_point (calculate_safety_stock q d sd L sL sl) = Some rp \<and>
                    0 \<le> ss \<and> ss \<le> rp"
    using sl v
    by (simp add: calculate_safety_stock_def Let_def norm_ppf_def np_sqrt_def fmul_def not_less)
next
  assume s: "0 < s1 \<and> s1 \<le> s2 \<and> s2 < 1"
  have "q s1 \<le> q s2"
  proof (cases "s1 = s2")
    case True
    then show ?thesis by simp
  next
    case False
    then have "0 < s1 \<and> s1 < s2 \<and> s2 < 1" using s by simp
    then have "q s1 < q s2" using q unfolding quantile_like_def by blast
    then show ?thesis by simp
  qed
  then have "py_round (q s1) 2 \<le> py_round (q s2) 2" by (rule py_round_mono)
  then show "\<exists>z1 z2. z_score (calculate_safety_stock q d sd L sL s1) = Some z1 \<and>
                    z_score (calculate_safety_stock q d sd L sL s2) = Some z2 \<and>
                    z1 \<le> z2"
    using s by (simp add: calculate_safety_stock_def Let_def norm_ppf_def)
qed

lemma quantile_like_linear: "quantile_like (\<lambda>p. 4 * p - 2)"
  by (simp add: quantile_like_def)

theorem calculate_safety_stock_bounds_witness:
  "quantile_like (\<lambda>p. 4 * p - 2) \<and>
   calculate_safety_stock (\<lambda>p. 4 * p - 2) 3 2 4 0 (3 / 4) =
     \<lparr>safety_stock = Some 4, reorder_point = Some 16, z_score = Some 1\<rparr> \<and>
   (\<exists>ss rp. safety_stock (calculate_safety_stock (\<lambda>p. 4 * p - 2) 3 2 4 0 (3 / 4)) = Some ss \<and>
            reorder_point (calculate_safety_stock (\<lambda>p. 4 * p - 2) 3 2 4 0 (3 / 4)) = Some rp \<and>
            0 \<le> ss \<and> ss \<le> rp) \<and>
   (\<exists>z1 z2. z_score (calculate_safety_stock (\<lambda>p. 4 * p - 2) 3 2 4 0 (1 / 4)) = Some z1 \<and>
            z_score (calculate_safety_stock (\<lambda>p. 4 * p - 2) 3 2 4 0 (3 / 4)) = Some z2 \<and>
            z1 \<le> z2)"
  using calculate_safety_stock_bounds[OF quantile_like_linear, of 3 2 4 0 "3 / 4" "1 / 4" "3 / 4"]
    quantile_like_linear
  by (simp add: calculate_safety_stock_def Let_def norm_ppf_def np_sqrt_def fmul_def sqrt_16
      py_round_def rint_numeral)

text \<open>
  At a service level of 0.1 the standard normal quantile is about \<open>-1.28\<close>. With any
  quantile value of at most \<open>-1\<close> there, unit demand, unit lead time and unit lead-time
  deviation give a negative safety stock.
\<close>

theorem calculate_safety_stock_negative:
  "\<not> (\<exists>q. q (1 / 10) \<le> - 1 \<and>
          (\<exists>ss. safety_stock (calculate_safety_stock q 1 0 1 1 (1 / 10)) = Some ss \<and> 0 \<le> ss))"
proof
  assume "\<exists>q. q (1 / 10) \<le> - 1 \<and>
          (\<exists>ss. safety_stock (calculate_safety_stock q 1 0 1 1 (1 / 10)) = Some ss \<and> 0 \<le> ss)"
  then obtain q :: "real \<Rightarrow> real" and ss where q: "q (1 / 10) \<le> - 1"
    and ss: "safety_stock (calculate_safety_stock q 1 0 1 1 (1 / 10)) = Some ss" "0 \<le> ss"
    by blast
  have "ss = rint (q (1 / 10))"
    using ss(1) by (simp add: calculate_safety_stock_def Let_def norm_ppf_def np_sqrt_def fmul_def py_round_0)
  moreover have "rint (q (1 / 10)) \<le> rint (- 1)" using q by (rule rint_mono)
  moreover have "rint (- 1) = - 1" using rint_of_int[of "- 1"] by simp
  ultimately show False using ss(2) by simp
qed

subsection \<open>Supplier grades and risk levels\<close>

lemma score_row_labels:
  "let s = overall_score (score_row r) in
     (0 < s \<and> s \<le> 3 / 10 \<longrightarrow>
        grade (score_row r) = Some ''F'' \<and> risk_level (score_row r) = Some ''Critical'') \<and>
     (3 / 10 < s \<and> s \<le> 5 / 10 \<longrightarrow>
        grade (score_row r) = Some ''D'' \<and> risk_level (score_row r) = Some ''High'') \<and>
     (5 / 10 < s \<and> s \<le> 65 / 100 \<longrightarrow>
        grade (score_row r) = Some ''C'' \<and> risk_level (score_row r) = Some ''Medium'') \<and>
     (65 / 100 < s \<and> s \<le> 8 / 10 \<longrightarrow>
        grade (score_row r) = Some ''B'' \<and> risk_level (score_row r) = Some ''Low'') \<and>
     (8 / 10 < s \<and> s \<le> 1 \<longrightarrow>
        grade (score_row r) = Some ''A'' \<and> risk_level (score_row r) = Some ''Very Low'') \<and>
     map_option (rank_of grade_labels) (grade (score_row r)) =
       map_option (rank_of risk_labels) (risk_level (score_row r))"
  by (simp add: score_row_def Let_def score_bins_def risk_labels_def grade_labels_def)

lemma score_two_suppliers:
  "map (\<lambda>r. (supplier (dimensions r), overall_score r, grade r, risk_level r))
     (score_suppliers two_suppliers) =
   [(''Apparel'', 3 / 10, Some ''F'', Some ''Critical''), (''Golf'', 0, None, None)]"
  by (simp add: two_suppliers_def score_suppliers_def score_row_def Let_def WEIGHTS_def
      metric_column_def score_bins_def risk_labels_def grade_labels_def)

text \<open>
  Claim C2, as the code has it. \<open>pd.cut\<close> is called with its defaults, so the bins are
  closed on the right: in every row of \<open>score_suppliers\<close> a score in \<open>(0, 0.3]\<close> gets
  F/Critical, \<open>(0.3, 0.5]\<close> D/High, \<open>(0.5, 0.65]\<close> C/Medium, \<open>(0.65, 0.8]\<close> B/Low and
  \<open>(0.8, 1]\<close> A/Very Low, and the two labels always have the same rank in their label
  lists (or are both missing).
\<close>

theorem score_suppliers_labels:
  "\<forall>r \<in> set (score_suppliers supplier_data).
     let s = overall_score r in
       (0 < s \<and> s \<le> 3 / 10 \<longrightarrow> grade r = Some ''F'' \<and> risk_level r = Some ''Critical'') \<and>
       (3 / 10 < s \<and> s \<le> 5 / 10 \<longrightarrow> grade r = Some ''D'' \<and> risk_level r = Some ''High'') \<and>
       (5 / 10 < s \<and> s \<le> 65 / 100 \<longrightarrow> grade r = Some ''C'' \<and> risk_level r = Some ''Medium'') \<and>
       (65 / 100 < s \<and> s \<le> 8 / 10 \<longrightarrow> grade r = Some ''B'' \<and> risk_level r = Some ''Low'') \<and>
       (8 / 10 < s \<and> s \<le> 1 \<longrightarrow> grade r = Some ''A'' \<and> risk_level r = Some ''Very Low'') \<and>
       map_option (rank_of grade_labels) (grade r) = map_option (rank_of risk_labels) (risk_level r)"
proof
  fix r
  assume "r \<in> set (score_suppliers supplier_data)"
  then obtain r' where r: "r = score_row r'"
    by (auto simp: score_suppliers_def)
  show "let s = overall_score r in
       (0 < s \<and> s \<le> 3 / 10 \<longrightarrow> grade r = Some ''F'' \<and> risk_level r = Some ''Critical'') \<and>
       (3 / 10 < s \<and> s \<le> 5 / 10 \<longrightarrow> grade r = Some ''D'' \<and> risk_level r = Some ''High'') \<and>
       (5 / 10 < s \<and> s \<le> 65 / 100 \<longrightarrow> grade r = Some ''C'' \<and> risk_level r = Some ''Medium'') \<and>
       (65 / 100 < s \<and> s \<le> 8 / 10 \<longrightarrow> grade r = Some ''B'' \<and> risk_level r = Some ''Low'') \<and>
       (8 / 10 < s \<and> s \<le> 1 \<longrightarrow> grade r = Some ''A'' \<and> risk_level r = Some ''Very Low'') \<and>
       map_option (rank_of grade_labels) (grade r) = map_option (rank_of risk_labels) (risk_level r)"
    unfolding r by (rule score_row_labels)
qed

theorem score_suppliers_labels_witness:
  "hd (score_suppliers two_suppliers) \<in> set (score_suppliers two_suppliers) \<and>
   0 < overall_score (hd (score_suppliers two_suppliers)) \<and>
   overall_score (hd (score_suppliers two_suppliers)) \<le> 3 / 10 \<and>
   grade (hd (score_suppliers two_suppliers)) = Some ''F'' \<and>
   risk_level (hd (score_suppliers two_suppliers)) = Some ''Critical'' \<and>
   map_option (rank_of grade_labels) (grade (hd (score_suppliers two_suppliers))) =
     map_option (rank_of risk_labels) (risk_level (hd (score_suppliers two_suppliers)))"
proof -
  have ne: "score_suppliers two_suppliers \<noteq> []"
    using score_two_suppliers by auto
  then have mem: "hd (score_suppliers two_suppliers) \<in> set (score_suppliers two_suppliers)"
    by simp
  have s: "overall_score (hd (score_suppliers two_suppliers)) = 3 / 10"
    using score_two_suppliers ne by (cases "score_suppliers two_suppliers") auto
  show ?thesis
    using score_suppliers_labels[of two_suppliers] mem s by (auto simp: Let_def)
qed

text \<open>
  On the boundaries the code differs from the half-open bins of the claim: the department
  with an overall score of exactly 0.3 is graded F/Critical, not D/High, and the one with
  a score of exactly 0 gets no label at all.
\<close>

theorem score_suppliers_boundaries:
  "map (\<lambda>r. (overall_score r, grade r, risk_level r)) (score_suppliers two_suppliers) =
     [(3 / 10, Some ''F'', Some ''Critical''), (0, None, None)]"
  using score_two_suppliers
  by (simp add: two_suppliers_def score_suppliers_def score_row_def Let_def WEIGHTS_def
      metric_column_def score_bins_def risk_labels_def grade_labels_def)

subsection \<open>Demand forecasting: the prepared series and the split\<close>

lemma filter_upt_ge: "filter (\<lambda>i. k \<le> i) [0..<n] = [k..<n]"
proof (induction n)
  case 0
  then show ?case by simp
next
  case (Suc n)
  then show ?case by (cases "k \<le> n") (auto simp: not_le)
qed

lemma daily_row_at_complete:
  "list_all (\<lambda>c. snd c \<noteq> None) (features (daily_row_at cal groups demands i)) \<longleftrightarrow> 28 \<le> i"
  by (auto simp: daily_row_at_def Let_def split_beta lag_columns_def rolling_columns_def
      shift_at_def create_time_features_def)

lemma order_day_daily_row_at: "order_day (daily_row_at cal groups demands i) = fst (groups ! i)"
  by (simp add: daily_row_at_def split_beta)

lemma dropna_daily_frame:
  "dropna (daily_frame cal data) =
     (let groups = groupby (\<lambda>r. dt_date (order_date r)) data;
          demands = map (\<lambda>(d, g). sum_list (map quantity g)) groups
      in map (daily_row_at cal groups demands) [28..<length groups])"
  unfolding dropna_def daily_frame_def Let_def filter_map o_def daily_row_at_complete
    filter_upt_ge ..

lemma length_dropna_daily_frame:
  "length (dropna (daily_frame cal data)) =
     length (unique_sorted (\<lambda>r. dt_date (order_date r)) data) - 28"
  by (simp add: dropna_daily_frame Let_def groupby_def)

lemma length_unique_sorted: "length (unique_sorted key rows) = card (key ` set rows)"
  by (simp add: unique_sorted_def length_remdups_card_conv)

lemma days_of_daily_orders:
  "length (unique_sorted (\<lambda>r. dt_date (order_date r)) (daily_orders k)) = k"
proof -
  have "(\<lambda>r. dt_date (order_date r)) ` set (daily_orders k) = int ` {0..<k}"
    by (auto simp: daily_orders_def dt_date_def image_iff)
  moreover have "card (int ` {0..<k}) = k"
    by (simp add: card_image)
  ultimately show ?thesis by (simp add: length_unique_sorted)
qed

lemma prepared_daily_orders:
  "length (snd (snd (prepare_data cal (daily_orders k) None))) = k - 28"
  by (simp add: prepare_data_def Let_def length_dropna_daily_frame days_of_daily_orders)

lemma prepare_data_lengths:
  "prepare_data cal df cat = (X, target, daily) \<Longrightarrow>
     length X = length daily \<and> length target = length daily"
  by (auto simp: prepare_data_def Let_def)

lemma split_fails: "length X < 2 \<Longrightarrow> train_test_split X y TEST_SIZE = Inl ValueError"
proof -
  assume "length X < 2"
  then consider "length X = 0" | "length X = 1" by linarith
  then show ?thesis
  proof cases
    case 1
    then show ?thesis by (simp add: train_test_split_def TEST_SIZE_def)
  next
    case 2
    have "\<lceil>2 / 10 :: real\<rceil> = 1" by (simp add: ceiling_eq_iff)
    then show ?thesis using 2 by (simp add: train_test_split_def TEST_SIZE_def Let_def)
  qed
qed

lemma split_sizes:
  assumes "2 \<le> n"
  shows "nat \<lceil>TEST_SIZE * real n\<rceil> < n"
proof -
  have "TEST_SIZE * real n \<le> real_of_int (int n - 1)"
    using assms by (simp add: TEST_SIZE_def)
  then have "\<lceil>TEST_SIZE * real n\<rceil> \<le> int n - 1"
    by (simp only: ceiling_le_iff)
  then have "\<lceil>TEST_SIZE * real n\<rceil> < int n" by simp
  moreover have "0 \<le> \<lceil>TEST_SIZE * real n\<rceil>" by (simp add: TEST_SIZE_def)
  ultimately show ?thesis by (simp add: nat_less_iff)
qed

lemma split_succeeds:
  "2 \<le> length X \<Longrightarrow>
     \<exists>n_train. 0 < n_train \<and> n_train \<le> length X \<and>
       train_test_split X y TEST_SIZE =
         Inr (take n_train X, take (length X - n_train) (drop n_train X),
              take n_train y, take (length X - n_train) (drop n_train y))"
proof -
  assume a: "2 \<le> length X"
  let ?t = "nat \<lceil>TEST_SIZE * real (length X)\<rceil>"
  have lt: "?t < length X" using a by (rule split_sizes)
  then have "length X - (length X - ?t) = ?t" by simp
  then show ?thesis
    using lt
    by (intro exI[of _ "length X - ?t"]) (simp add: train_test_split_def Let_def)
qed

lemma train_fails:
  "length (snd (snd (prepare_data cal df cat))) < 2 \<Longrightarrow>
     train cal fit self df cat = (Inl ValueError, self\<lparr>feature_columns := feature_names\<rparr>)"
proof -
  assume a: "length (snd (snd (prepare_data cal df cat))) < 2"
  obtain X target daily where p: "prepare_data cal df cat = (X, target, daily)"
    by (cases "prepare_data cal df cat") auto
  then have "length X < 2" using a prepare_data_lengths[OF p] by simp
  then show ?thesis by (simp add: train_def p split_fails)
qed

lemma train_succeeds:
  "2 \<le> length (snd (snd (prepare_data cal df cat))) \<Longrightarrow>
     \<exists>res self' m. train cal fit self df cat = (Inr res, self') \<and>
        model self' = Some m \<and> feature_columns self' = feature_names"
proof -
  assume a: "2 \<le> length (snd (snd (prepare_data cal df cat)))"
  obtain X target daily where p: "prepare_data cal df cat = (X, target, daily)"
    by (cases "prepare_data cal df cat") auto
  then have "2 \<le> length X" using a prepare_data_lengths[OF p] by simp
  from split_succeeds[OF this, of target] obtain n_train where
    "train_test_split X target TEST_SIZE =
         Inr (take n_train X, take (length X - n_train) (drop n_train X),
              take n_train target, take (length X - n_train) (drop n_train target))"
    by blast
  then show ?thesis by (simp add: train_def p Let_def)
qed

lemma train_Inr_state:
  assumes "train cal fit self df cat = (Inr res, self')"
  shows "(\<exists>m. model self' = Some m) \<and> feature_columns self' = feature_names \<and>
         snd (snd (prepare_data cal df cat)) \<noteq> []"
proof (cases "length (snd (snd (prepare_data cal df cat))) < 2")
  case True
  from train_fails[OF this, of fit self] assms show ?thesis by simp
next
  case False
  then have a: "2 \<le> length (snd (snd (prepare_data cal df cat)))" by simp
  from train_succeeds[OF a, of fit self] assms have
    "(\<exists>m. model self' = Some m) \<and> feature_columns self' = feature_names"
    by auto
  moreover have "snd (snd (prepare_data cal df cat)) \<noteq> []" using a by auto
  ultimately show ?thesis by auto
qed

text \<open>
  Claim C3, as the code has it. \<open>train\<close> has no minimum number of rows and no error of its
  own: with fewer than two rows left after the lags and \<open>dropna\<close> the split raises
  scikit-learn's \<open>ValueError\<close> (the train set would be empty), and with two rows or more the
  call returns.
\<close>

theorem train_without_minimum:
  "(length (snd (snd (prepare_data cal df cat))) < 2 \<longrightarrow>
      fst (train cal fit self df cat) = Inl ValueError) \<and>
   (2 \<le> length (snd (snd (prepare_data cal df cat))) \<longrightarrow>
      (\<exists>res. fst (train cal fit self df cat) = Inr res))"
proof (intro conjI impI)
  assume "length (snd (snd (prepare_data cal df cat))) < 2"
  from train_fails[OF this] show "fst (train cal fit self df cat) = Inl ValueError" by simp
next
  assume "2 \<le> length (snd (snd (prepare_data cal df cat)))"
  from train_succeeds[OF this, of fit self] show "\<exists>res. fst (train cal fit self df cat) = Inr res"
    by auto
qed

theorem train_without_minimum_witness:
  "length (snd (snd (prepare_data calendar_1970 (daily_orders 29) None))) = 1 \<and>
   fst (train calendar_1970 mean_less_five new_forecaster (daily_orders 29) None) = Inl ValueError \<and>
   length (snd (snd (prepare_data calendar_1970 (daily_orders 30) None))) = 2 \<and>
   (\<exists>res. fst (train calendar_1970 mean_less_five new_forecaster (daily_orders 30) None) = Inr res)"
  using train_without_minimum[of calendar_1970 "daily_orders 29" None mean_less_five new_forecaster]
    train_without_minimum[of calendar_1970 "daily_orders 30" None mean_less_five new_forecaster]
  by (simp add: prepared_daily_orders)

text \<open>
  Forty-five order days leave 17 rows, under the minimum of 40 the claim suggests, and
  training returns normally.
\<close>

theorem train_accepts_short_series:
  "length (snd (snd (prepare_data calendar_1970 (daily_orders 45) None))) = 17 \<and>
   (\<exists>res. fst (train calendar_1970 mean_less_five new_forecaster (daily_orders 45) None) = Inr res)"
proof -
  have n: "length (snd (snd (prepare_data calendar_1970 (daily_orders 45) None))) = 17"
    by (simp add: prepared_daily_orders)
  then have "2 \<le> length (snd (snd (prepare_data calendar_1970 (daily_orders 45) None)))"
    by simp
  from train_succeeds[OF this, of mean_less_five new_forecaster] n show ?thesis by auto
qed

subsection \<open>Demand forecasting: the forecast loop\<close>

lemma forecast_loop_rows:
  "recent \<noteq> [] \<Longrightarrow>
     \<exists>rows. forecast_loop cal m cols last_row recent dates = Inr rows \<and>
       map forecast_date rows = dates \<and>
       (\<forall>r \<in> set rows. 0 \<le> predicted_demand r)"
proof (induction dates arbitrary: recent)
  case Nil
  then show ?case by simp
next
  case (Cons date dates)
  let ?row = "[(''revenue'', cell (features last_row) ''revenue''),
               (''num_orders'', cell (features last_row) ''num_orders''),
               (''avg_price'', cell (features last_row) ''avg_price''),
               (''avg_discount'', cell (features last_row) ''avg_discount'')] @
              map (\<lambda>(lag, name).
                  (name, Some (if lag \<le> length recent
                               then recent ! (length recent - lag)
                               else recent ! 0)))
                lag_columns @
              concat (map (\<lambda>(w, mean_name, std_name).
                  let recent_window = drop (length recent - w) recent
                  in [(mean_name, Some (mean recent_window)),
                      (std_name, Some (if length recent_window > 1 then np_std recent_window else 0))])
                rolling_columns) @
              create_time_features cal date"
  let ?pred = "max 0 (m (select_columns cols ?row))"
  have "recent @ [?pred] \<noteq> []" by simp
  from Cons.IH[OF this] obtain rest where
    rest: "forecast_loop cal m cols last_row (recent @ [?pred]) dates = Inr rest"
      "map forecast_date rest = dates" "\<forall>r \<in> set rest. 0 \<le> predicted_demand r"
    by blast
  have "forecast_loop cal m cols last_row recent (date # dates) =
          Inr (\<lparr>forecast_date = date, predicted_demand = ?pred\<rparr> # rest)"
    using Cons.prems rest(1) by (simp add: Let_def)
  then show ?case using rest(2,3) by simp
qed

text \<open>
  The forecast after a run of the body of \<open>train\<close> on the instance. For a horizon of at
  least one day, \<open>forecast_future\<close> on the same dataset and category returns exactly
  \<open>horizon_days\<close> rows, none with a negative prediction, dated with the consecutive days
  that follow the last day of the prepared daily frame.
\<close>

lemma forecast_future_after_train:
  assumes "train cal fit self df cat = (Inr res, self')"
    and "1 \<le> horizon_days"
  shows "\<exists>rows. forecast_future cal self' df horizon_days cat = Inr rows \<and>
           length rows = nat horizon_days \<and>
           (\<forall>r \<in> set rows. 0 \<le> predicted_demand r) \<and>
           map forecast_date rows =
             map (\<lambda>i. Max (set (map order_day (snd (snd (prepare_data cal df cat))))) + 1 + int i)
               [0..<nat horizon_days]"
proof -
  obtain X target daily where p: "prepare_data cal df cat = (X, target, daily)"
    by (cases "prepare_data cal df cat") auto
  from train_Inr_state[OF assms(1)] p obtain m where
    st: "model self' = Some m" "daily \<noteq> []"
    by auto
  let ?dates = "map (\<lambda>i. Max (set (map order_day daily)) + 1 + int i) [0..<nat horizon_days]"
  let ?recent = "drop (length daily - 30) (map demand daily)"
  have "?recent \<noteq> []" using st(2) by (cases daily) auto
  from forecast_loop_rows[OF this, of cal m "feature_columns self'" "last daily" ?dates]
  obtain rows where
    rows: "forecast_loop cal m (feature_columns self') (last daily) ?recent ?dates = Inr rows"
      "map forecast_date rows = ?dates" "\<forall>r \<in> set rows. 0 \<le> predicted_demand r"
    by blast
  have "forecast_future cal self' df horizon_days cat = Inr rows"
    using st assms(2) rows(1) by (simp add: forecast_future_def p Let_def)
  moreover have "length rows = nat horizon_days"
    using rows(2) by (metis length_map length_upt minus_nat.diff_0)
  ultimately show ?thesis using rows(2,3) p by simp
qed

lemma unique_sorted_daily_orders:
  "unique_sorted (\<lambda>r. dt_date (order_date r)) (daily_orders k) = map int [0..<k]"
proof -
  have m: "map (\<lambda>r. dt_date (order_date r)) (daily_orders k) = map int [0..<k]"
    by (simp add: daily_orders_def dt_date_def o_def)
  have d: "distinct (map int [0..<k])" by (simp add: distinct_map)
  have s: "sorted (map int [0..<k])"
    by (simp add: sorted_map sorted_wrt_iff_nth_less)
  show ?thesis
    unfolding unique_sorted_def m using d s by (simp add: distinct_remdups_id sorted_sort_id)
qed

lemma prepared_days_daily_orders:
  "map order_day (snd (snd (prepare_data cal (daily_orders k) None))) = map int [28..<k]"
  by (simp add: prepare_data_def dropna_daily_frame Let_def order_day_daily_row_at o_def
      groupby_def unique_sorted_daily_orders)

lemma forecast_future_after_train_example:
  "\<exists>res self'.
     train calendar_1970 mean_less_five new_forecaster (daily_orders 30) None = (Inr res, self') \<and>
     (\<exists>rows. forecast_future calendar_1970 self' (daily_orders 30) 3 None = Inr rows \<and>
        length rows = 3 \<and>
        list_all (\<lambda>r. 0 \<le> predicted_demand r) rows \<and>
        map forecast_date rows = [30, 31, 32])"
proof -
  have "2 \<le> length (snd (snd (prepare_data calendar_1970 (daily_orders 30) None)))"
    by (simp add: prepared_daily_orders)
  from train_succeeds[OF this, of mean_less_five new_forecaster] obtain res self' where
    t: "train calendar_1970 mean_less_five new_forecaster (daily_orders 30) None = (Inr res, self')"
    by blast
  have u: "[28..<30] = [28, 29]" "[0..<3] = [0, 1, 2]" by (simp_all add: upt_rec)
  from forecast_future_after_train[OF t, of 3] obtain rows where r:
    "forecast_future calendar_1970 self' (daily_orders 30) 3 None = Inr rows"
    "length rows = 3" "\<forall>r \<in> set rows. 0 \<le> predicted_demand r"
    "map forecast_date rows = [30, 31, 32]"
    by (auto simp: prepared_days_daily_orders u)
  show ?thesis
    by (rule exI[of _ res], rule exI[of _ self'], rule conjI[OF t], rule exI[of _ rows])
       (simp add: r list_all_iff)
qed

text \<open>
  Claim C5 at the input where the code departs from it. A first instance trains on thirty
  days of orders: the body runs, the instance gets its model, and the result is stored. A
  second, new instance then trains on the same dataset: the call is answered from the
  store and returns the same result, the body does not run, and the instance is left
  without a model. Its forecast for a horizon of three days is the empty table.
\<close>

theorem forecast_future_after_cached_train:
  "\<exists>res a store.
     train_cached calendar_1970 mean_less_five Map.empty new_forecaster (daily_orders 30) None =
       (Inr res, a, store) \<and>
     model a \<noteq> None \<and>
     train_cached calendar_1970 mean_less_five store new_forecaster (daily_orders 30) None =
       (Inr res, new_forecaster, store) \<and>
     model new_forecaster = None \<and>
     forecast_future calendar_1970 new_forecaster (daily_orders 30) 3 None = Inr []"
proof -
  have "2 \<le> length (snd (snd (prepare_data calendar_1970 (daily_orders 30) None)))"
    by (simp add: prepared_daily_orders)
  from train_succeeds[OF this, of mean_less_five new_forecaster] obtain res a m where
    t: "train calendar_1970 mean_less_five new_forecaster (daily_orders 30) None = (Inr res, a)"
    and m: "model a = Some m"
    by blast
  let ?store = "[(daily_orders 30, None :: string option) \<mapsto> res]"
  have first: "train_cached calendar_1970 mean_less_five Map.empty new_forecaster (daily_orders 30) None =
       (Inr res, a, ?store)"
    by (simp add: train_cached_def cache_resource_def t)
  have second: "train_cached calendar_1970 mean_less_five ?store new_forecaster (daily_orders 30) None =
       (Inr res, new_forecaster, ?store)"
    by (simp add: train_cached_def cache_resource_def)
  have n: "model new_forecaster = None" by (simp add: new_forecaster_def)
  have f: "forecast_future calendar_1970 new_forecaster (daily_orders 30) 3 None = Inr []"
    by (simp add: forecast_future_def n)
  show ?thesis
    by (rule exI[of _ res], rule exI[of _ a], rule exI[of _ ?store])
       (simp add: first second n f m)
qed

text \<open>
  Claim C10. On an instance without a model, \<open>forecast_future\<close> returns the empty table
  for every dataset, horizon and category.
\<close>

theorem forecast_future_untrained:
  "model self = None \<Longrightarrow> forecast_future cal self df horizon_days cat = Inr []"
  by (simp add: forecast_future_def)

theorem forecast_future_untrained_witness:
  "model new_forecaster = None \<and>
   forecast_future calendar_1970 new_forecaster (daily_orders 30) 90 (Some ''Golf'') = Inr []"
  using forecast_future_untrained[of new_forecaster calendar_1970 "daily_orders 30" 90 "Some ''Golf''"]
  by (simp add: new_forecaster_def)

subsection \<open>Inventory analysis\<close>

lemma concat_map_skip:
  "concat (map (\<lambda>c. if P c then [] else [f c]) cs) = map f (filter (\<lambda>c. \<not> P c) cs)"
  by (induction cs) auto

lemma category_analyze_category: "category (analyze_category q c rows) = c"
  by (simp add: analyze_category_def Let_def)

lemma total_orders_analyze_category: "total_orders (analyze_category q c rows) = length rows"
  by (simp add: analyze_category_def Let_def)

lemma analyze_inventory_rows:
  "analyze_inventory q df =
     map (\<lambda>c. analyze_category q c (filter (\<lambda>r. product_category r = c) df))
       (filter (\<lambda>c. 10 \<le> length (filter (\<lambda>r. product_category r = c) df))
          (unique_sorted product_category df))"
  by (simp add: analyze_inventory_def Let_def concat_map_skip not_less)

lemma sorted_unique_sorted: "sorted (unique_sorted key rows) \<and> distinct (unique_sorted key rows)"
  by (simp add: unique_sorted_def)

lemma remdups_replicate_const: "remdups (replicate k x) = (if k = 0 then [] else [x])"
  by (induction k) auto

lemma length_daily_orders: "length (daily_orders k) = k"
  by (simp add: daily_orders_def)

lemma categories_of_daily_orders:
  "0 < k \<Longrightarrow> unique_sorted product_category (daily_orders k) = [''Golf'']"
proof -
  assume "0 < k"
  have "map product_category (daily_orders k) = replicate k ''Golf''"
    by (simp add: daily_orders_def o_def map_replicate_const)
  then show ?thesis using \<open>0 < k\<close> by (simp add: unique_sorted_def remdups_replicate_const)
qed

lemma golf_rows_of_daily_orders:
  "filter (\<lambda>r. product_category r = ''Golf'') (daily_orders k) = daily_orders k"
  by (simp add: daily_orders_def filter_map o_def)

lemma filter_eq_upt: "filter (\<lambda>j. j = i) [0..<k] = (if i < k then [i] else [])"
  by (induction k) auto

lemma day_group_of_daily_orders:
  "i < k \<Longrightarrow>
     filter (\<lambda>r. dt_date (order_date r) = int i) (daily_orders k) =
       [\<lparr>order_id = int i, order_date = 86400 * int i + 3600,
         product_category = ''Golf'', quantity = 2, unit_price = 10, revenue = 20,
         discount_percent = 0, scheduled_shipping_days = 4, late_delivery = 0\<rparr>]"
  by (simp add: daily_orders_def filter_map o_def dt_date_def filter_eq_upt)

lemma daily_demand_of_daily_orders:
  "map (\<lambda>(d, g). (d, sum_list (map quantity g)))
     (groupby (\<lambda>r. dt_date (order_date r)) (daily_orders k)) =
   map (\<lambda>i. (int i, 2)) [0..<k]"
  by (simp add: groupby_def unique_sorted_daily_orders o_def day_group_of_daily_orders)

lemma columns_of_daily_orders:
  "map quantity (daily_orders k) = replicate k 2"
  "map unit_price (daily_orders k) = replicate k 10"
  "map revenue (daily_orders k) = replicate k 20"
  "map scheduled_shipping_days (daily_orders k) = replicate k 4"
  "map late_delivery (daily_orders k) = replicate k 0"
  by (simp_all add: daily_orders_def o_def map_replicate_const)

lemma mean_replicate: "0 < k \<Longrightarrow> mean (replicate k c) = c"
  by (simp add: mean_def sum_list_replicate)

lemma std_replicate: "0 < k \<Longrightarrow> std (replicate k c) = 0"
  by (simp add: std_def mean_replicate sum_list_replicate)

lemma rint_sqrt_36500: "rint (sqrt 36500) = 191"
proof -
  have lo: "191 < sqrt 36500" by (rule real_less_rsqrt) (simp add: power2_eq_square)
  have hi: "sqrt 36500 < 191.5" by (rule real_less_lsqrt) (simp_all add: power2_eq_square)
  have fl: "\<lfloor>sqrt 36500\<rfloor> = 191" using lo hi by (simp add: floor_eq_iff)
  show ?thesis using lo hi by (simp add: rint_def Let_def fl)
qed

lemma analyze_category_daily_orders:
  "analyze_category q ''Golf'' (daily_orders 12) =
     \<lparr>category = ''Golf'', total_orders = 12, total_revenue = 240, avg_daily_demand = 2,
      demand_std = 0, demand_cv = 0, annual_demand = 730, avg_unit_price = 10,
      avg_lead_time = 4, eoq = Some 191, safety_stock_95 = Some 0, reorder_point_95 = Some 8,
      safety_stock_99 = Some 0, reorder_point_99 = Some 8, late_delivery_rate = 0,
      overstock_risk = ''Low''\<rparr>"
proof -
  have m: "map (snd \<circ> (\<lambda>i. (int i, 2 :: real))) [0..<12] = replicate 12 2"
    by (simp add: o_def map_replicate_const)
  have e: "calculate_eoq 730 50 10 (1 / 5) = Some 191"
    by (simp add: calculate_eoq_def np_sqrt_def py_round_0 rint_sqrt_36500)
  have s: "calculate_safety_stock q 2 0 4 0 p =
      \<lparr>safety_stock = map_option (\<lambda>z. 0) (norm_ppf q p),
       reorder_point = map_option (\<lambda>z. 8) (norm_ppf q p),
       z_score = map_option (\<lambda>x. py_round x 2) (norm_ppf q p)\<rparr>" for p
    by (cases "norm_ppf q p")
       (simp_all add: calculate_safety_stock_def Let_def np_sqrt_def fmul_def py_round_def rint_numeral
          rint_of_int[of 0, simplified])
  show ?thesis
    by (simp add: analyze_category_def Let_def daily_demand_of_daily_orders m
        columns_of_daily_orders mean_replicate std_replicate sum_list_replicate
        length_daily_orders e s norm_ppf_def py_round_def rint_numeral rint_of_int[of 0, simplified])
qed

text \<open>
  Claim C9. Two calls of \<open>analyze_inventory\<close> on the same dataset return the same table,
  whatever the store of \<open>st.cache_data\<close> held before the first call, and from an empty
  store it is the table the body computes. That table is fixed by the dataset: its
  categories are those with at least 10 orders, in ascending order and each once, and
  every row holds the statistics of the orders of its category, whose number it reports.
  For twelve days of one order each, the table has the one row given below; with nine
  orders it is empty.
\<close>

theorem analyze_inventory_deterministic:
  "fst (analyze_inventory_cached q (snd (analyze_inventory_cached q cache df)) df) =
     fst (analyze_inventory_cached q cache df) \<and>
   fst (analyze_inventory_cached q Map.empty df) = analyze_inventory q df \<and>
   map category (analyze_inventory q df) =
     filter (\<lambda>c. 10 \<le> length (filter (\<lambda>r. product_category r = c) df))
       (unique_sorted product_category df) \<and>
   sorted (map category (analyze_inventory q df)) \<and>
   distinct (map category (analyze_inventory q df)) \<and>
   list_all (\<lambda>row. row = analyze_category q (category row)
                          (filter (\<lambda>r. product_category r = category row) df) \<and>
                  total_orders row = length (filter (\<lambda>r. product_category r = category row) df) \<and>
                  10 \<le> total_orders row)
     (analyze_inventory q df) \<and>
   analyze_inventory q (daily_orders 12) =
     [\<lparr>category = ''Golf'', total_orders = 12, total_revenue = 240, avg_daily_demand = 2,
       demand_std = 0, demand_cv = 0, annual_demand = 730, avg_unit_price = 10,
       avg_lead_time = 4, eoq = Some 191, safety_stock_95 = Some 0, reorder_point_95 = Some 8,
       safety_stock_99 = Some 0, reorder_point_99 = Some 8, late_delivery_rate = 0,
       overstock_risk = ''Low''\<rparr>] \<and>
   analyze_inventory q (daily_orders 9) = []"
proof (intro conjI)
  show "fst (analyze_inventory_cached q (snd (analyze_inventory_cached q cache df)) df) =
     fst (analyze_inventory_cached q cache df)"
    by (cases "cache df") (simp_all add: analyze_inventory_cached_def Let_def)
  show "fst (analyze_inventory_cached q Map.empty df) = analyze_inventory q df"
    by (simp add: analyze_inventory_cached_def Let_def)
  show cats: "map category (analyze_inventory q df) =
     filter (\<lambda>c. 10 \<le> length (filter (\<lambda>r. product_category r = c) df))
       (unique_sorted product_category df)"
    by (simp add: analyze_inventory_rows o_def category_analyze_category)
  show "sorted (map category (analyze_inventory q df))"
    unfolding cats
    using sorted_unique_sorted[of product_category df]
      sorted_filter[of "\<lambda>c. c" "unique_sorted product_category df"]
    by simp
  show "distinct (map category (analyze_inventory q df))"
    unfolding cats using sorted_unique_sorted[of product_category df] by simp
  show "list_all (\<lambda>row. row = analyze_category q (category row)
                          (filter (\<lambda>r. product_category r = category row) df) \<and>
                  total_orders row = length (filter (\<lambda>r. product_category r = category row) df) \<and>
                  10 \<le> total_orders row)
     (analyze_inventory q df)"
    by (simp add: analyze_inventory_rows list_all_iff category_analyze_category
        total_orders_analyze_category)
  show "analyze_inventory q (daily_orders 12) =
     [\<lparr>category = ''Golf'', total_orders = 12, total_revenue = 240, avg_daily_demand = 2,
       demand_std = 0, demand_cv = 0, annual_demand = 730, avg_unit_price = 10,
       avg_lead_time = 4, eoq = Some 191, safety_stock_95 = Some 0, reorder_point_95 = Some 8,
       safety_stock_99 = Some 0, reorder_point_99 = Some 8, late_delivery_rate = 0,
       overstock_risk = ''Low''\<rparr>]"
    by (simp add: analyze_inventory_rows categories_of_daily_orders golf_rows_of_daily_orders
        length_daily_orders analyze_category_daily_orders)
  show "analyze_inventory q (daily_orders 9) = []"
    by (simp add: analyze_inventory_rows categories_of_daily_orders golf_rows_of_daily_orders
        length_daily_orders)
qed

subsection \<open>Delivery prediction for a single order\<close>

text \<open>
  Claim C4, as the code has it. Without a model \<open>predict_single\<close> does not raise: for every
  order it returns the dictionary whose only item is the message \<open>Model not trained\<close> under
  the key \<open>error\<close>, and no prediction.
\<close>

theorem predict_single_untrained:
  "model self = None \<Longrightarrow>
     predict_single str_num self order_data = Inr [(''error'', Str ''Model not trained'')]"
  by (simp add: predict_single_def)

theorem predict_single_untrained_witness:
  "\<forall>str_num. model new_predictor = None \<and>
     predict_single str_num new_predictor unseen_region_order =
       Inr [(''error'', Str ''Model not trained'')]"
  using predict_single_untrained[of new_predictor _ unseen_region_order]
  by (simp add: new_predictor_def)

text \<open>
  On a new instance and the empty order the call returns normally; what it returns is a
  dictionary with the single key \<open>error\<close>.
\<close>

theorem predict_single_untrained_returns:
  "\<forall>str_num. \<not> isl (predict_single str_num new_predictor Map.empty) \<and>
     map fst (projr (predict_single str_num new_predictor Map.empty)) = [''error'']"
  by (simp add: predict_single_def new_predictor_def)


lemma encoded_not_categorical: "col \<in> set categorical_cols \<Longrightarrow> col @ ''_encoded'' \<notin> set categorical_cols"
  by (auto simp: categorical_cols_def)

lemma encoded_not_interaction:
  "col \<in> set categorical_cols \<Longrightarrow>
     col @ ''_encoded'' \<noteq> ''price_x_quantity'' \<and> col @ ''_encoded'' \<noteq> ''discount_x_price'' \<and>
     col @ ''_encoded'' \<noteq> ''scheduled_x_qty''"
  by (auto simp: categorical_cols_def)

lemma numeric_fields_num_of:
  "numeric_fields d \<longleftrightarrow>
     (\<forall>c v. d c = Some v \<and> c \<notin> set categorical_cols \<longrightarrow> num_of (Some v) \<noteq> None)"
proof -
  have "num_of (Some v) \<noteq> None \<longleftrightarrow> (\<exists>n. v = Integer n) \<or> (\<exists>x. v = Num x)" for v
    by (cases v) (simp_all add: num_of_def)
  then show ?thesis by (simp add: numeric_fields_def)
qed

lemma encode_categoricals_numeric:
  "numeric_fields df \<Longrightarrow> numeric_fields (encode_categoricals str_num encoders df)"
proof (induction encoders arbitrary: df)
  case Nil
  then show ?case by (simp add: encode_categoricals_def)
next
  case (Cons e encoders)
  obtain col classes where e: "e = (col, classes)" by (cases e)
  let ?d = "case df col of None \<Rightarrow> df
            | Some v \<Rightarrow> df(col @ ''_encoded'' \<mapsto> Integer (encode_value classes (astype_str str_num v)))"
  have "numeric_fields ?d" using Cons.prems by (auto simp: numeric_fields_def split: option.splits)
  from Cons.IH[OF this] show ?case by (simp add: encode_categoricals_def e)
qed

lemma encode_categoricals_other:
  "c \<notin> (\<lambda>col. col @ ''_encoded'') ` set (map fst encoders) \<Longrightarrow>
     encode_categoricals str_num encoders df c = df c"
proof (induction encoders arbitrary: df)
  case Nil
  then show ?case by (simp add: encode_categoricals_def)
next
  case (Cons e encoders)
  obtain col classes where e: "e = (col, classes)" by (cases e)
  let ?d = "case df col of None \<Rightarrow> df
            | Some v \<Rightarrow> df(col @ ''_encoded'' \<mapsto> Integer (encode_value classes (astype_str str_num v)))"
  have "c \<noteq> col @ ''_encoded''" using Cons.prems by (auto simp: e)
  then have d: "?d c = df c" by (simp split: option.splits)
  have "encode_categoricals str_num encoders ?d c = ?d c"
    using Cons.prems by (intro Cons.IH) (auto simp: e)
  then show ?case using d by (simp add: encode_categoricals_def e)
qed

lemma encode_categoricals_value:
  assumes "distinct (map fst encoders)"
    and "list_all (\<lambda>col. col \<in> set categorical_cols) (map fst encoders)"
    and "(col, classes) \<in> set encoders"
    and "df col = Some v"
  shows "encode_categoricals str_num encoders df (col @ ''_encoded'') =
           Some (Integer (encode_value classes (astype_str str_num v)))"
  using assms
proof (induction encoders arbitrary: df)
  case Nil
  then show ?case by simp
next
  case (Cons e encoders)
  obtain col' classes' where e: "e = (col', classes')" by (cases e)
  let ?d = "case df col' of None \<Rightarrow> df
            | Some v' \<Rightarrow> df(col' @ ''_encoded'' \<mapsto> Integer (encode_value classes' (astype_str str_num v')))"
  have step: "encode_categoricals str_num (e # encoders) df = encode_categoricals str_num encoders ?d"
    by (simp add: encode_categoricals_def e)
  have cats: "col' \<in> set categorical_cols" "list_all (\<lambda>col. col \<in> set categorical_cols) (map fst encoders)"
    using Cons.prems(2) by (simp_all add: e)
  show ?case
  proof (cases "col = col'")
    case True
    have "(col', classes) \<notin> set encoders"
      using Cons.prems(1) by (force simp: e)
    then have cl: "classes = classes'"
      using Cons.prems(3) True by (simp add: e)
    have "col @ ''_encoded'' \<notin> (\<lambda>c. c @ ''_encoded'') ` set (map fst encoders)"
      using Cons.prems(1) True by (auto simp: e)
    from encode_categoricals_other[OF this]
    have "encode_categoricals str_num encoders ?d (col @ ''_encoded'') = ?d (col @ ''_encoded'')" .
    then show ?thesis using True cl Cons.prems(4) by (simp add: step)
  next
    case False
    then have mem: "(col, classes) \<in> set encoders" using Cons.prems(3) by (simp add: e)
    have colcat: "col \<in> set categorical_cols"
      using mem cats(2) by (auto simp: list_all_iff)
    have "col \<noteq> col' @ ''_encoded''" using encoded_not_categorical[OF cats(1)] colcat by auto
    then have "?d col = Some v" using Cons.prems(4) by (simp split: option.splits)
    with Cons.prems(1) cats(2) mem show ?thesis
      unfolding step by (intro Cons.IH) simp_all
  qed
qed

lemma pymul_numeric:
  "num_of (Some x) \<noteq> None \<Longrightarrow> num_of (Some y) \<noteq> None \<Longrightarrow>
     \<exists>v. pymul x y = Inr v \<and> num_of (Some v) \<noteq> None"
  by (cases x; cases y) (simp_all add: pymul_def num_of_def)

lemma interaction_numeric:
  assumes "numeric_fields df" and "a \<notin> set categorical_cols" and "b \<notin> set categorical_cols"
  shows "\<exists>df'. interaction a b name df = Inr df' \<and> numeric_fields df' \<and>
           (\<forall>c. c \<noteq> name \<longrightarrow> df' c = df c)"
proof (cases "df a")
  case None
  then show ?thesis using assms(1) by (simp add: interaction_def)
next
  case (Some x)
  then have x: "num_of (Some x) \<noteq> None" using assms(1,2) by (simp add: numeric_fields_num_of)
  show ?thesis
  proof (cases "df b")
    case None
    then show ?thesis using assms(1) Some by (simp add: interaction_def)
  next
    case (Some y)
    then have y: "num_of (Some y) \<noteq> None" using assms(1,3) by (simp add: numeric_fields_num_of)
    from pymul_numeric[OF x y] obtain v where v: "pymul x y = Inr v" "num_of (Some v) \<noteq> None"
      by blast
    have "interaction a b name df = Inr (df(name \<mapsto> v))"
      using \<open>df a = Some x\<close> Some v(1) by (simp add: interaction_def)
    moreover have "numeric_fields (df(name \<mapsto> v))"
      using assms(1) v(2) by (auto simp: numeric_fields_num_of)
    ultimately show ?thesis by simp
  qed
qed

lemma fill_missing_apply:
  "fill_missing cols df c = (if c \<in> set cols \<and> df c = None then Some (Integer 0) else df c)"
proof (induction cols arbitrary: df)
  case Nil
  then show ?case by (simp add: fill_missing_def)
next
  case (Cons col cols)
  have "fill_missing (col # cols) df =
          fill_missing cols (if df col = None then df(col \<mapsto> Integer 0) else df)"
    by (simp add: fill_missing_def)
  then show ?case using Cons.IH by auto
qed

lemma model_input_numeric:
  assumes "\<forall>c \<in> set cols. num_of (df c) \<noteq> None"
  shows "model_input cols df = Inr (map (\<lambda>c. (c, the (num_of (df c)))) cols)"
proof -
  have "list_all (\<lambda>c. num_of (df c) \<noteq> None) cols"
    using assms by (simp add: list_all_iff)
  then show ?thesis by (simp add: model_input_def)
qed

lemma map_of_graph: "map_of (map (\<lambda>c. (c, f c)) cols) k = (if k \<in> set cols then Some (f k) else None)"
  by (induction cols) auto

lemma order_features_total:
  assumes shape: "fitted_shape self" and num: "numeric_fields order_data"
  shows "\<exists>X. order_features str_num self order_data = Inr X \<and>
           map fst X = feature_columns self \<and>
           (\<forall>col classes v.
              (col, classes) \<in> set (label_encoders self) \<and> order_data col = Some v \<and>
              col @ ''_encoded'' \<in> set (feature_columns self) \<longrightarrow>
                map_of X (col @ ''_encoded'') =
                  Some (real_of_int (encode_value classes (astype_str str_num v))))"
proof -
  let ?df = "encode_categoricals str_num (label_encoders self) order_data"
  have d: "distinct (map fst (label_encoders self))"
    and k: "list_all (\<lambda>col. col \<in> set categorical_cols) (map fst (label_encoders self))"
    and f: "list_all (\<lambda>col. col \<notin> set categorical_cols) (feature_columns self)"
    using shape by (simp_all add: fitted_shape_def)
  have n0: "numeric_fields ?df" using num by (rule encode_categoricals_numeric)
  have nc: "''unit_price'' \<notin> set categorical_cols" "''quantity'' \<notin> set categorical_cols"
    "''discount_percent'' \<notin> set categorical_cols" "''scheduled_shipping_days'' \<notin> set categorical_cols"
    by (simp_all add: categorical_cols_def)
  from interaction_numeric[OF n0 nc(1) nc(2), of "''price_x_quantity''"] obtain df1 where
    df1: "interaction ''unit_price'' ''quantity'' ''price_x_quantity'' ?df = Inr df1"
      "numeric_fields df1" "\<forall>c. c \<noteq> ''price_x_quantity'' \<longrightarrow> df1 c = ?df c"
    by blast
  from interaction_numeric[OF df1(2) nc(3) nc(1), of "''discount_x_price''"] obtain df2 where
    df2: "interaction ''discount_percent'' ''unit_price'' ''discount_x_price'' df1 = Inr df2"
      "numeric_fields df2" "\<forall>c. c \<noteq> ''discount_x_price'' \<longrightarrow> df2 c = df1 c"
    by blast
  from interaction_numeric[OF df2(2) nc(4) nc(2), of "''scheduled_x_qty''"] obtain df3 where
    df3: "interaction ''scheduled_shipping_days'' ''quantity'' ''scheduled_x_qty'' df2 = Inr df3"
      "numeric_fields df3" "\<forall>c. c \<noteq> ''scheduled_x_qty'' \<longrightarrow> df3 c = df2 c"
    by blast
  let ?df4 = "fill_missing (feature_columns self) df3"
  have all_num: "\<forall>c \<in> set (feature_columns self). num_of (?df4 c) \<noteq> None"
  proof
    fix c
    assume c: "c \<in> set (feature_columns self)"
    then have cc: "c \<notin> set categorical_cols" using f by (auto simp: list_all_iff)
    show "num_of (?df4 c) \<noteq> None"
    proof (cases "df3 c")
      case None
      then show ?thesis using c by (simp add: fill_missing_apply num_of_def)
    next
      case (Some v)
      then have "num_of (Some v) \<noteq> None" using df3(2) cc by (simp add: numeric_fields_num_of)
      then show ?thesis using Some by (simp add: fill_missing_apply)
    qed
  qed
  let ?X = "map (\<lambda>c. (c, the (num_of (?df4 c)))) (feature_columns self)"
  have X: "order_features str_num self order_data = Inr ?X"
    using df1(1) df2(1) df3(1) model_input_numeric[OF all_num]
    by (simp add: order_features_def Let_def)
  have names: "map fst ?X = feature_columns self" by (simp add: o_def)
  have enc: "map_of ?X (col @ ''_encoded'') =
               Some (real_of_int (encode_value classes (astype_str str_num v)))"
    if a: "(col, classes) \<in> set (label_encoders self)" "order_data col = Some v"
      "col @ ''_encoded'' \<in> set (feature_columns self)" for col classes v
  proof -
    have cat: "col \<in> set categorical_cols" using a(1) k by (auto simp: list_all_iff)
    have e: "?df (col @ ''_encoded'') = Some (Integer (encode_value classes (astype_str str_num v)))"
      using d k a(1,2) by (rule encode_categoricals_value)
    have "df3 (col @ ''_encoded'') = ?df (col @ ''_encoded'')"
      using encoded_not_interaction[OF cat] df1(3) df2(3) df3(3) by simp
    then have "?df4 (col @ ''_encoded'') = Some (Integer (encode_value classes (astype_str str_num v)))"
      using e by (simp add: fill_missing_apply)
    then show ?thesis using a(3) by (simp add: map_of_graph num_of_def)
  qed
  show ?thesis using X names enc by blast
qed

lemma encode_value_unseen: "x \<notin> set classes \<Longrightarrow> encode_value classes x = - 1"
proof -
  have "x \<notin> set classes \<Longrightarrow> rank_of classes x = None"
    by (induction classes) auto
  then show "x \<notin> set classes \<Longrightarrow> encode_value classes x = - 1"
    by (simp add: encode_value_def)
qed

text \<open>
  The path of \<open>predict_single\<close> with a model. In a state of the shape training leaves, and
  for an order whose non-categorical fields hold numbers, the call returns whatever the
  categorical values are. The classifier is applied to the feature row \<open>X\<close>, which has the
  feature columns of the state and the code \<open>-1\<close> for every categorical value that is not
  among the classes of its encoder; the two probabilities returned are \<open>clf X\<close> and
  \<open>1 - clf X\<close>.
\<close>

lemma predict_single_fitted:
  assumes "model self = Some clf" and "fitted_shape self" and "numeric_fields order_data"
  shows "\<exists>X. order_features str_num self order_data = Inr X \<and>
           map fst X = feature_columns self \<and>
           predict_single str_num self order_data =
             Inr [(''late_delivery_prediction'', Integer (if clf X > 1 / 2 then 1 else 0)),
                  (''late_probability'', Num (clf X)),
                  (''on_time_probability'', Num (1 - clf X)),
                  (''risk_level'', Str (if clf X > 7 / 10 then ''High''
                                        else if clf X > 4 / 10 then ''Medium'' else ''Low''))] \<and>
           clf X + (1 - clf X) = 1 \<and>
           (\<forall>col classes v.
              (col, classes) \<in> set (label_encoders self) \<and> order_data col = Some v \<and>
              astype_str str_num v \<notin> set classes \<and>
              col @ ''_encoded'' \<in> set (feature_columns self) \<longrightarrow>
                map_of X (col @ ''_encoded'') = Some (- 1))"
proof -
  from order_features_total[OF assms(2,3), of str_num] obtain X where
    X: "order_features str_num self order_data = Inr X"
    and names: "map fst X = feature_columns self"
    and enc: "\<forall>col classes v.
              (col, classes) \<in> set (label_encoders self) \<and> order_data col = Some v \<and>
              col @ ''_encoded'' \<in> set (feature_columns self) \<longrightarrow>
                map_of X (col @ ''_encoded'') =
                  Some (real_of_int (encode_value classes (astype_str str_num v)))"
    by blast
  have "\<forall>col classes v.
              (col, classes) \<in> set (label_encoders self) \<and> order_data col = Some v \<and>
              astype_str str_num v \<notin> set classes \<and>
              col @ ''_encoded'' \<in> set (feature_columns self) \<longrightarrow>
                map_of X (col @ ''_encoded'') = Some (- 1)"
    using enc encode_value_unseen by force
  moreover have "predict_single str_num self order_data =
             Inr [(''late_delivery_prediction'', Integer (if clf X > 1 / 2 then 1 else 0)),
                  (''late_probability'', Num (clf X)),
                  (''on_time_probability'', Num (1 - clf X)),
                  (''risk_level'', Str (if clf X > 7 / 10 then ''High''
                                        else if clf X > 4 / 10 then ''Medium'' else ''Low''))]"
    using assms(1) X by (simp add: predict_single_def Let_def)
  ultimately show ?thesis using X names by simp
qed

lemma fit_encoders_shape:
  "distinct (map fst les) \<Longrightarrow>
   list_all (\<lambda>col. col \<in> set categorical_cols) (map fst les) \<Longrightarrow>
   list_all (\<lambda>col. col \<in> set categorical_cols) cats \<Longrightarrow>
     distinct (map fst (fold (\<lambda>col les.
         if col \<in> set (map fst les) then les else les @ [(col, classes_of col)]) cats les)) \<and>
     list_all (\<lambda>col. col \<in> set categorical_cols)
       (map fst (fold (\<lambda>col les.
         if col \<in> set (map fst les) then les else les @ [(col, classes_of col)]) cats les))"
proof (induction cats arbitrary: les)
  case Nil
  then show ?case by simp
next
  case (Cons c cats)
  let ?les = "if c \<in> set (map fst les) then les else les @ [(c, classes_of c)]"
  have "distinct (map fst ?les)" using Cons.prems(1) by auto
  moreover have "list_all (\<lambda>col. col \<in> set categorical_cols) (map fst ?les)"
    using Cons.prems(2,3) by auto
  moreover have "list_all (\<lambda>col. col \<in> set categorical_cols) cats"
    using Cons.prems(3) by simp
  ultimately show ?case using Cons.IH[of ?les] by simp
qed

lemma prepare_features_shape:
  assumes "fitted_shape self"
  shows "fitted_shape ((prepare_features_state columns classes_of self)\<lparr>model := m\<rparr>)"
proof -
  let ?cats = "filter (\<lambda>c. c \<in> set columns) categorical_cols"
  have c: "list_all (\<lambda>col. col \<in> set categorical_cols) ?cats"
    by (simp add: list_all_iff)
  have d: "distinct (map fst (label_encoders self))"
    and k: "list_all (\<lambda>col. col \<in> set categorical_cols) (map fst (label_encoders self))"
    using assms by (simp_all add: fitted_shape_def)
  have n: "list_all (\<lambda>col. col \<notin> set categorical_cols) (filter (\<lambda>c. c \<in> set columns) numerical_cols)"
    by (auto simp: list_all_iff numerical_cols_def categorical_cols_def)
  have e: "list_all (\<lambda>col. col \<notin> set categorical_cols) (map (\<lambda>col. col @ ''_encoded'') ?cats)"
    by (auto simp: list_all_iff categorical_cols_def)
  have i: "''price_x_quantity'' \<notin> set categorical_cols" "''discount_x_price'' \<notin> set categorical_cols"
    "''scheduled_x_qty'' \<notin> set categorical_cols"
    by (simp_all add: categorical_cols_def)
  show ?thesis
    using fit_encoders_shape[OF d k c, of classes_of] n e i
    by (simp add: fitted_shape_def prepare_features_state_def Let_def)
qed

lemma new_predictor_shape: "fitted_shape new_predictor"
  by (simp add: fitted_shape_def new_predictor_def)

lemma trained_predictor_shape: "fitted_shape trained_predictor"
  unfolding trained_predictor_def by (rule prepare_features_shape[OF new_predictor_shape])

lemma trained_predictor_state:
  "feature_columns trained_predictor =
     [''unit_price'', ''quantity'', ''region_encoded'', ''price_x_quantity''] \<and>
   label_encoders trained_predictor = [(''region'', [''Europe'', ''LATAM''])] \<and>
   model trained_predictor = Some (\<lambda>X. 8 / 10)"
  by (simp add: trained_predictor_def prepare_features_state_def new_predictor_def Let_def
      categorical_cols_def numerical_cols_def)

lemma unseen_region_order_numeric: "numeric_fields unseen_region_order"
  by (simp add: numeric_fields_def unseen_region_order_def categorical_cols_def)

lemma predict_single_unseen_region:
  "order_features str_num trained_predictor unseen_region_order =
     Inr [(''unit_price'', 10), (''quantity'', 3), (''region_encoded'', - 1),
          (''price_x_quantity'', 30)] \<and>
   predict_single str_num trained_predictor unseen_region_order =
     Inr [(''late_delivery_prediction'', Integer 1),
          (''late_probability'', Num (8 / 10)),
          (''on_time_probability'', Num (2 / 10)),
          (''risk_level'', Str ''High'')]"
proof -
  have f: "order_features str_num trained_predictor unseen_region_order =
       Inr [(''unit_price'', 10), (''quantity'', 3), (''region_encoded'', - 1),
            (''price_x_quantity'', 30)]"
    by (simp add: order_features_def trained_predictor_state unseen_region_order_def
        encode_categoricals_def encode_value_def astype_str_def interaction_def pymul_def
        fill_missing_def model_input_def num_of_def)
  then show ?thesis
    by (simp add: predict_single_def trained_predictor_state Let_def)
qed

lemma cache_resource_miss:
  "cache key = None \<Longrightarrow> body self = (Inr res, self') \<Longrightarrow>
     cache_resource cache key body self = (Inr res, self', cache(key \<mapsto> res))"
  by (simp add: cache_resource_def)

lemma cache_resource_hit:
  "cache key = Some stored \<Longrightarrow> cache_resource cache key body self = (Inr stored, self, cache)"
  by (simp add: cache_resource_def)

text \<open>
  Claim C6 at the input where the code departs from it. Once the store holds a result for
  the training frame (an earlier instance has trained on it), \<open>train\<close> on a new predictor
  returns that result and leaves the instance without a model; \<open>predict_single\<close> then
  returns no probabilities but the dictionary with the single key \<open>error\<close>, for every
  order.
\<close>

theorem predict_single_after_cached_train:
  "train_delivery body (cache(df \<mapsto> stored)) new_predictor df =
     (Inr stored, new_predictor, cache(df \<mapsto> stored)) \<and>
   model new_predictor = None \<and>
   predict_single str_num new_predictor order_data = Inr [(''error'', Str ''Model not trained'')]"
  by (simp add: train_delivery_def cache_resource_def predict_single_def new_predictor_def)

subsection \<open>Tool dispatch\<close>

text \<open>
  Claim C8. \<open>execute_tool\<close> returns a text for every tool name, argument dictionary and
  dataset. For a name that is not in the tool map the text is the JSON object with the key
  \<open>error\<close> and the message \<open>Unknown tool: name\<close>; when the implementation raises, or
  the serialisation of its result does, the text is the JSON object with the key \<open>error\<close>
  and the message of the exception.
\<close>

theorem execute_tool_never_raises:
  "(\<exists>text. execute_tool json_string dumps impls tool_name arguments df = Inr text) \<and>
   (tool_name \<notin> set (map fst (tool_map impls)) \<longrightarrow>
      execute_tool json_string dumps impls tool_name arguments df =
        Inr (dumps_error json_string (''Unknown tool: '' @ tool_name))) \<and>
   (\<forall>tool e. map_of (tool_map impls) tool_name = Some tool \<and> tool df arguments = Inl e \<longrightarrow>
      execute_tool json_string dumps impls tool_name arguments df =
        Inr (dumps_error json_string e)) \<and>
   (\<forall>tool result e. map_of (tool_map impls) tool_name = Some tool \<and>
        tool df arguments = Inr result \<and> dumps result = Inl e \<longrightarrow>
      execute_tool json_string dumps impls tool_name arguments df =
        Inr (dumps_error json_string e))"
proof (intro conjI impI allI)
  show "\<exists>text. execute_tool json_string dumps impls tool_name arguments df = Inr text"
    by (auto simp: execute_tool_def split: option.splits sum.splits)
next
  assume "tool_name \<notin> set (map fst (tool_map impls))"
  then have "map_of (tool_map impls) tool_name = None"
    by (simp add: map_of_eq_None_iff)
  then show "execute_tool json_string dumps impls tool_name arguments df =
        Inr (dumps_error json_string (''Unknown tool: '' @ tool_name))"
    by (simp add: execute_tool_def)
next
  fix tool e
  assume "map_of (tool_map impls) tool_name = Some tool \<and> tool df arguments = Inl e"
  then show "execute_tool json_string dumps impls tool_name arguments df =
        Inr (dumps_error json_string e)"
    by (simp add: execute_tool_def)
next
  fix tool result e
  assume "map_of (tool_map impls) tool_name = Some tool \<and>
        tool df arguments = Inr result \<and> dumps result = Inl e"
  then show "execute_tool json_string dumps impls tool_name arguments df =
        Inr (dumps_error json_string e)"
    by (simp add: execute_tool_def)
qed

theorem execute_tool_never_raises_witness:
  "execute_tool quoted Inr broken_tools ''nonexistent_tool'' [] (daily_orders 3) =
     Inr ([CHR ''{'', CHR 0x22] @ ''error'' @ [CHR 0x22, CHR '':'', CHR '' '', CHR 0x22] @
          ''Unknown tool: nonexistent_tool'' @ [CHR 0x22, CHR ''}'']) \<and>
   execute_tool quoted Inr broken_tools ''compare_regions'' [] (daily_orders 3) =
     Inr ([CHR ''{'', CHR 0x22] @ ''error'' @ [CHR 0x22, CHR '':'', CHR '' '', CHR 0x22] @
          ''order_date'' @ [CHR 0x22, CHR ''}''])"
  using execute_tool_never_raises[of quoted Inr broken_tools "''nonexistent_tool''" "[]" "daily_orders 3"]
    execute_tool_never_raises[of quoted Inr broken_tools "''compare_regions''" "[]" "daily_orders 3"]
  by (simp add: tool_map_def broken_tools_def dumps_error_def quoted_def)

end
